theory Spec2Isabelle
  imports Complex_Main
begin

section \<open>Strings\<close>

text \<open>
  A JavaScript string is a sequence of UTF-16 code units. Code units are modelled as natural
  numbers, so that the Polish letters of the static tables and patterns (for example
  U+017C = 380) are single units, as they are for \<^verbatim>\<open>String.prototype.length\<close> and for
  the regular expressions of the source (none of which carries the \<^verbatim>\<open>u\<close> flag).
  \<open>asc\<close> turns an ASCII literal into such a string.
\<close>

type_synonym jstring = "nat list"

definition asc :: "string \<Rightarrow> jstring" where
  "asc s = map of_char s"

text \<open>Values handed to the index: JSON.\<close>

datatype json =
    JNull
  | JBool bool
  | JNum real
  | JStr jstring
  | JArr "json list"
  | JObj "(string \<times> json) list"

definition in_cls :: "nat \<Rightarrow> (nat \<times> nat) list \<Rightarrow> bool" where
  "in_cls c rs = list_ex (\<lambda>(lo, hi). lo \<le> c \<and> c \<le> hi) rs"

text \<open>
  White space as \<^verbatim>\<open>\s\<close> and \<^verbatim>\<open>trim\<close> see it: TAB to CR, SPACE, NBSP, U+1680,
  U+2000 to U+200A, U+2028, U+2029, U+202F, U+205F, U+3000 and U+FEFF.
\<close>

definition space_cls :: "(nat \<times> nat) list" where
  "space_cls = [(9, 13), (32, 32), (160, 160), (5760, 5760), (8192, 8202), (8232, 8233),
                (8239, 8239), (8287, 8287), (12288, 12288), (65279, 65279)]"

definition digit_cls :: "(nat \<times> nat) list" where
  "digit_cls = [(48, 57)]"

definition letter_cls :: "(nat \<times> nat) list" where
  "letter_cls = [(65, 90), (97, 122)]"

definition word_cls :: "(nat \<times> nat) list" where
  "word_cls = [(48, 57), (65, 90), (95, 95), (97, 122)]"

definition trim :: "jstring \<Rightarrow> jstring" where
  "trim s = rev (dropWhile (\<lambda>c. in_cls c space_cls) (rev (dropWhile (\<lambda>c. in_cls c space_cls) s)))"

text \<open>
  Case mapping of one code unit. It covers the ASCII letters and the letters of the Polish
  alphabet, which are the only cased letters in the tables and patterns of the source; the
  Kelvin sign U+212A, whose lower case is the ASCII \<open>k\<close>, is included so that a lookup of a
  lower-cased text in a table of ASCII keys is decided as in JavaScript. Every other code
  unit is left unchanged.
\<close>

definition polish_pairs :: "(nat \<times> nat) list" where
  "polish_pairs = [(211, 243), (260, 261), (262, 263), (280, 281), (321, 322), (323, 324),
                   (346, 347), (377, 378), (379, 380)]"

definition lower_cu :: "nat \<Rightarrow> nat" where
  "lower_cu c =
     (if 65 \<le> c \<and> c \<le> 90 then c + 32
      else if c = 8490 then 107
      else case map_of polish_pairs c of Some l \<Rightarrow> l | None \<Rightarrow> c)"

definition upper_cu :: "nat \<Rightarrow> nat" where
  "upper_cu c =
     (if 97 \<le> c \<and> c \<le> 122 then c - 32
      else case map_of (map (\<lambda>(u, l). (l, u)) polish_pairs) c of Some u \<Rightarrow> u | None \<Rightarrow> c)"

definition toLowerCase :: "jstring \<Rightarrow> jstring" where
  "toLowerCase s = map lower_cu s"

definition toUpperCase :: "jstring \<Rightarrow> jstring" where
  "toUpperCase s = map upper_cu s"

fun startsWith :: "jstring \<Rightarrow> jstring \<Rightarrow> bool" where
  "startsWith s [] = True"
| "startsWith [] (p # ps) = False"
| "startsWith (c # cs) (p # ps) = (c = p \<and> startsWith cs ps)"

fun join :: "jstring \<Rightarrow> jstring list \<Rightarrow> jstring" where
  "join sep [] = []"
| "join sep [w] = w"
| "join sep (w # ws) = w @ sep @ join sep ws"

text \<open>\<^verbatim>\<open>parseInt(s, 10)\<close> and \<^verbatim>\<open>parseFloat(s)\<close> on the digit strings the patterns capture.\<close>

definition parseInt :: "jstring \<Rightarrow> nat" where
  "parseInt s = foldl (\<lambda>n c. 10 * n + (c - 48)) 0 (takeWhile (\<lambda>c. in_cls c digit_cls) s)"

definition parseFloat :: "jstring \<Rightarrow> real" where
  "parseFloat s =
     (let ip = takeWhile (\<lambda>c. in_cls c digit_cls) s;
          rest = drop (length ip) s;
          fp = (case rest of
                  [] \<Rightarrow> []
                | c # cs \<Rightarrow> if c = 46 then takeWhile (\<lambda>c. in_cls c digit_cls) cs else [])
      in real (parseInt ip) + real (parseInt fp) / 10 ^ length fp)"

section \<open>Regular expressions\<close>

text \<open>
  The regular expressions of the source use literals, classes, concatenation, alternation,
  greedy quantifiers, \<^verbatim>\<open>^\<close>, \<^verbatim>\<open>$\<close>, \<^verbatim>\<open>\b\<close> and capture groups. A class is a list
  of inclusive ranges of code units; under the \<^verbatim>\<open>i\<close> flag a literal letter is the class
  of its two cases.

  A match state is the text to the left of the position (reversed), the text to the right and
  the captures made so far. \<open>m r s\<close> lists the states in which a match of \<open>r\<close> started in
  \<open>s\<close> can end, in the order in which a backtracking matcher tries them, so the head of the
  list is the match JavaScript reports. An iteration of a star that consumes nothing is
  rejected, as in ECMAScript, so a star started with \<open>n\<close> units to the right iterates at most
  \<open>n\<close> times.
\<close>

datatype regex =
    Cls "(nat \<times> nat) list"
  | Eps
  | Seq regex regex
  | Alt regex regex
  | Star regex
  | Bol
  | Eol
  | WordB
  | Grp nat regex

type_synonym mstate = "nat list \<times> nat list \<times> (nat \<times> jstring) list"

definition at_boundary :: "nat list \<Rightarrow> nat list \<Rightarrow> bool" where
  "at_boundary l r =
     ((case l of [] \<Rightarrow> False | a # _ \<Rightarrow> in_cls a word_cls)
       \<noteq> (case r of [] \<Rightarrow> False | b # _ \<Rightarrow> in_cls b word_cls))"

fun star :: "nat \<Rightarrow> (mstate \<Rightarrow> mstate list) \<Rightarrow> mstate \<Rightarrow> mstate list" where
  "star 0 f s = [s]"
| "star (Suc n) f s =
     concat (map (star n f)
       (filter (\<lambda>t. length (fst (snd t)) < length (fst (snd s))) (f s))) @ [s]"

primrec m :: "regex \<Rightarrow> mstate \<Rightarrow> mstate list" where
  "m (Cls rs) s =
     (case s of
        (l, [], cs) \<Rightarrow> []
      | (l, c # r, cs) \<Rightarrow> if in_cls c rs then [(c # l, r, cs)] else [])"
| "m Eps s = [s]"
| "m (Seq a b) s = concat (map (m b) (m a s))"
| "m (Alt a b) s = m a s @ m b s"
| "m (Star a) s = star (length (fst (snd s))) (m a) s"
| "m Bol s = (if fst s = [] then [s] else [])"
| "m Eol s = (if fst (snd s) = [] then [s] else [])"
| "m WordB s = (if at_boundary (fst s) (fst (snd s)) then [s] else [])"
| "m (Grp k a) s =
     map (\<lambda>(l, r, cs). (l, r, (k, rev (take (length l - length (fst s)) l)) # cs)) (m a s)"

text \<open>
  The leftmost match: the start position moves right until the pattern matches. The result is
  the (reversed) text before the match and the state at its end.
\<close>

fun search :: "regex \<Rightarrow> nat list \<Rightarrow> nat list \<Rightarrow> (nat list \<times> mstate) option" where
  "search r l [] = (case m r (l, [], []) of [] \<Rightarrow> None | t # _ \<Rightarrow> Some (l, t))"
| "search r l (c # cs) =
     (case m r (l, c # cs, []) of [] \<Rightarrow> search r (c # l) cs | t # _ \<Rightarrow> Some (l, t))"

definition test :: "regex \<Rightarrow> jstring \<Rightarrow> bool" where
  "test r s = (search r [] s \<noteq> None)"

record rmatch =
  m_index :: nat
  m_text :: jstring
  m_groups :: "(nat \<times> jstring) list"
  m_after :: jstring

definition exec :: "regex \<Rightarrow> jstring \<Rightarrow> rmatch option" where
  "exec r s =
     (case search r [] s of
        None \<Rightarrow> None
      | Some (l, (l', rest, caps)) \<Rightarrow>
          Some \<lparr> m_index = length l, m_text = rev (take (length l' - length l) l'),
                 m_groups = caps, m_after = rest \<rparr>)"

definition group :: "rmatch \<Rightarrow> nat \<Rightarrow> jstring option" where
  "group mt k = map_of (m_groups mt) k"

text \<open>\<^verbatim>\<open>s.replace(r, rep)\<close> for a pattern without the \<^verbatim>\<open>g\<close> flag: the first match only.\<close>

definition replace :: "regex \<Rightarrow> jstring \<Rightarrow> jstring \<Rightarrow> jstring" where
  "replace r rep s =
     (case search r [] s of
        None \<Rightarrow> s
      | Some (l, (l', rest, caps)) \<Rightarrow> rev l @ rep @ rest)"

text \<open>
  With the \<^verbatim>\<open>g\<close> flag every match is replaced; after an empty match the position advances
  by one unit.
\<close>

fun gsub :: "regex \<Rightarrow> jstring \<Rightarrow> nat list \<Rightarrow> nat list \<Rightarrow> jstring" where
  "gsub r rep l [] = (case m r (l, [], []) of [] \<Rightarrow> [] | t # _ \<Rightarrow> rep)"
| "gsub r rep l (c # cs) =
     (case m r (l, c # cs, []) of
        [] \<Rightarrow> c # gsub r rep (c # l) cs
      | (l', r', _) # _ \<Rightarrow>
          if length r' < length (c # cs) then rep @ gsub r rep l' r'
          else rep @ c # gsub r rep (c # l) cs)"

definition replaceAll :: "regex \<Rightarrow> jstring \<Rightarrow> jstring \<Rightarrow> jstring" where
  "replaceAll r rep s = gsub r rep [] s"

text \<open>
  \<^verbatim>\<open>s.split(r)\<close>: the pieces between the matches; a match that is empty and sits at the
  start of the current piece does not split.
\<close>

fun split_from :: "regex \<Rightarrow> jstring \<Rightarrow> nat list \<Rightarrow> nat list \<Rightarrow> jstring list" where
  "split_from r cur l [] = [rev cur]"
| "split_from r cur l (c # cs) =
     (case m r (l, c # cs, []) of
        [] \<Rightarrow> split_from r (c # cur) (c # l) cs
      | (l', r', _) # _ \<Rightarrow>
          if length r' < length (c # cs) then rev cur # split_from r [] l' r'
          else if cur = [] then split_from r [c] (c # l) cs
          else rev cur # split_from r [c] (c # l) cs)"

definition js_split :: "regex \<Rightarrow> jstring \<Rightarrow> jstring list" where
  "js_split r s =
     (if s = [] then (if m r ([], [], []) = [] then [[]] else [])
      else split_from r [] [] s)"

subsection \<open>Pattern notation\<close>

fun seqs :: "regex list \<Rightarrow> regex" where
  "seqs [] = Eps"
| "seqs [r] = r"
| "seqs (r # rs) = Seq r (seqs rs)"

fun alts :: "regex list \<Rightarrow> regex" where
  "alts [] = Cls []"
| "alts [r] = r"
| "alts (r # rs) = Alt r (alts rs)"

definition Opt :: "regex \<Rightarrow> regex" where
  "Opt r = Alt r Eps"

definition Plus :: "regex \<Rightarrow> regex" where
  "Plus r = Seq r (Star r)"

fun rep :: "nat \<Rightarrow> regex \<Rightarrow> regex" where
  "rep 0 r = Eps"
| "rep (Suc n) r = Seq r (rep n r)"

fun upto :: "nat \<Rightarrow> regex \<Rightarrow> regex" where
  "upto 0 r = Eps"
| "upto (Suc n) r = Opt (Seq r (upto n r))"

definition rep_range :: "nat \<Rightarrow> nat \<Rightarrow> regex \<Rightarrow> regex" where
  "rep_range lo hi r = Seq (rep lo r) (upto (hi - lo) r)"

definition other_case :: "nat \<Rightarrow> nat" where
  "other_case c = (if lower_cu c \<noteq> c then lower_cu c else upper_cu c)"

definition case_pair :: "nat \<Rightarrow> (nat \<times> nat) list" where
  "case_pair c = [(c, c), (other_case c, other_case c)]"

text \<open>A literal text, a literal text under the \<^verbatim>\<open>i\<close> flag, and classes given by their members.\<close>

definition lit :: "jstring \<Rightarrow> regex" where
  "lit s = seqs (map (\<lambda>c. Cls [(c, c)]) s)"

definition liti :: "jstring \<Rightarrow> regex" where
  "liti s = seqs (map (\<lambda>c. Cls (case_pair c)) s)"

definition T :: "string \<Rightarrow> regex" where
  "T s = liti (asc s)"

definition one_of :: "jstring \<Rightarrow> regex" where
  "one_of s = Cls (map (\<lambda>c. (c, c)) s)"

definition one_of_i :: "jstring \<Rightarrow> regex" where
  "one_of_i s = Cls (concat (map case_pair s))"

definition D :: regex where
  "D = Cls digit_cls"

definition W :: regex where
  "W = Cls word_cls"

definition S :: regex where
  "S = Cls space_cls"

definition letter_i :: regex where
  "letter_i = Cls letter_cls"

definition alnum_i :: regex where
  "alnum_i = Cls (letter_cls @ digit_cls)"

definition ws_plus :: regex where
  "ws_plus = Plus S"

section \<open>Parameter extractor\<close>

record extractor =
  x_name :: string
  x_pattern :: regex
  x_extract :: "rmatch \<Rightarrow> (string \<times> json) list"
  contextPattern :: "regex option"

definition grp :: "rmatch \<Rightarrow> nat \<Rightarrow> jstring" where
  "grp mt k = (case group mt k of Some g \<Rightarrow> g | None \<Rightarrow> [])"

definition mount_alternatives :: regex where
  "mount_alternatives =
     alts [T ''RF'', T ''EF'', T ''FE'', T ''E-mount'', T ''Z-mount'', T ''X-mount'',
           T ''L-mount'', T ''MFT'']"

definition pelna_klatka :: regex where
  "pelna_klatka = seqs [liti (asc ''pe'' @ 322 # asc ''na''), Star S, T ''klatka'']"

definition EXTRACTORS :: "extractor list" where
  "EXTRACTORS =
    [\<lparr> x_name = ''aperture'',
       x_pattern = seqs [T ''f'', lit (asc ''/''), Grp 1 (seqs [Plus D, Opt (lit (asc ''.'')), Star D])],
       x_extract = (\<lambda>mt. [(''params.aperture'', JStr (asc ''f/'' @ grp mt 1))]),
       contextPattern = None \<rparr>,
     \<lparr> x_name = ''focal_range'',
       x_pattern = seqs [Grp 1 (Plus D), lit (asc ''-''), Grp 2 (Plus D), Star S, T ''mm''],
       x_extract = (\<lambda>mt. [(''params.focal_length_min'', JNum (real (parseInt (grp mt 1)))),
                         (''params.focal_length_max'', JNum (real (parseInt (grp mt 2))))]),
       contextPattern = None \<rparr>,
     \<lparr> x_name = ''focal_single'',
       x_pattern = seqs [WordB, Grp 1 (Plus D), Star S, T ''mm'', WordB],
       x_extract = (\<lambda>mt. [(''params.focal_length_min'', JNum (real (parseInt (grp mt 1)))),
                         (''params.focal_length_max'', JNum (real (parseInt (grp mt 1))))]),
       contextPattern = None \<rparr>,
     \<lparr> x_name = ''video_resolution'',
       x_pattern = seqs [WordB, Grp 1 (Plus D), one_of (asc ''kK''), WordB],
       x_extract = (\<lambda>mt. [(''params.video_resolution'', JStr (grp mt 1 @ asc ''K''))]),
       contextPattern = None \<rparr>,
     \<lparr> x_name = ''video_fps'',
       x_pattern = seqs [Grp 1 (Plus D), Star S, T ''fps''],
       x_extract = (\<lambda>mt. [(''params.video_fps'', JNum (real (parseInt (grp mt 1))))]),
       contextPattern = None \<rparr>,
     \<lparr> x_name = ''sensor_size'',
       x_pattern = seqs [WordB,
                   Grp 1 (alts [seqs [T ''full'', Star S, T ''frame''], pelna_klatka, T ''ff'']),
                   WordB],
       x_extract = (\<lambda>mt. [(''params.sensor_size'', JStr (asc ''Full Frame''))]),
       contextPattern = None \<rparr>,
     \<lparr> x_name = ''sensor_size_apsc'',
       x_pattern = seqs [WordB, Grp 1 (seqs [T ''aps'', Opt (lit (asc ''-'')), T ''c'']), WordB],
       x_extract = (\<lambda>mt. [(''params.sensor_size'', JStr (asc ''APS-C''))]),
       contextPattern = None \<rparr>,
     \<lparr> x_name = ''sensor_size_m43'',
       x_pattern = seqs [WordB,
                   Grp 1 (alts [seqs [T ''micro'', Star S, lit (asc ''4/3'')], T ''m43'', T ''mft'']),
                   WordB],
       x_extract = (\<lambda>mt. [(''params.sensor_size'', JStr (asc ''Micro 4/3''))]),
       contextPattern = None \<rparr>,
     \<lparr> x_name = ''mount'',
       x_pattern = seqs [WordB, Grp 1 mount_alternatives, WordB],
       x_extract = (\<lambda>mt. [(''params.mount'', JStr (toUpperCase (grp mt 1)))]),
       contextPattern = None \<rparr>,
     \<lparr> x_name = ''filter_diameter'',
       x_pattern = seqs [WordB, Grp 1 (rep 2 D), Star S, T ''mm'', WordB],
       x_extract = (\<lambda>mt. [(''params.filter_diameter'', JNum (real (parseInt (grp mt 1))))]),
       contextPattern = Some (alts [T ''filtr'', T ''cpl'', T ''nd'', T ''uv'', T ''polaryz'']) \<rparr>,
     \<lparr> x_name = ''megapixels'',
       x_pattern = seqs [Grp 1 (seqs [Plus D, Opt (seqs [lit (asc ''.''), Plus D])]), Star S,
                       alts [T ''MP'', T ''Mpx'', T ''megapiksel'']],
       x_extract = (\<lambda>mt. [(''params.megapixels'', JNum (parseFloat (grp mt 1)))]),
       contextPattern = None \<rparr>]"

text \<open>\<^verbatim>\<open>Object.assign\<close>: an existing key keeps its place and takes the new value.\<close>

fun assign1 :: "(string \<times> json) list \<Rightarrow> string \<times> json \<Rightarrow> (string \<times> json) list" where
  "assign1 [] kv = [kv]"
| "assign1 ((k, v) # ps) (k', v') = (if k = k' then (k, v') # ps else (k, v) # assign1 ps (k', v'))"

definition assign :: "(string \<times> json) list \<Rightarrow> (string \<times> json) list \<Rightarrow> (string \<times> json) list" where
  "assign ps kvs = foldl assign1 ps kvs"

definition apply_extractor :: "jstring \<Rightarrow> (string \<times> json) list \<Rightarrow> extractor \<Rightarrow> (string \<times> json) list" where
  "apply_extractor q ps e =
     (if (case contextPattern e of Some cp \<Rightarrow> \<not> test cp q | None \<Rightarrow> False) then ps
      else case exec (x_pattern e) q of
             Some mt \<Rightarrow> assign ps (x_extract e mt)
           | None \<Rightarrow> ps)"

definition extractParams :: "jstring \<Rightarrow> (string \<times> json) list" where
  "extractParams q = foldl (apply_extractor q) [] EXTRACTORS"

definition stripParams :: "jstring \<Rightarrow> jstring" where
  "stripParams q0 =
     (let q = replaceAll (seqs [T ''f'', lit (asc ''/''), Plus D, Opt (lit (asc ''.'')), Star D]) [] q0;
          q = replaceAll (seqs [Plus D, lit (asc ''-''), Plus D, Star S, T ''mm'']) [] q;
          q = replaceAll (seqs [WordB, Plus D, Star S, T ''mm'', WordB]) [] q;
          q = replaceAll (seqs [WordB, Plus D, one_of (asc ''kK''), WordB]) [] q;
          q = replaceAll (seqs [Plus D, Star S, T ''fps'']) [] q;
          q = replaceAll
                (seqs [WordB,
                       alts [seqs [T ''full'', Star S, T ''frame''], pelna_klatka, T ''ff'',
                             seqs [T ''aps'', Opt (lit (asc ''-'')), T ''c''],
                             seqs [T ''micro'', Star S, lit (asc ''4/3'')], T ''m43'', T ''mft''],
                       WordB]) [] q;
          q = replaceAll (seqs [WordB, mount_alternatives, WordB]) [] q;
          q = trim (replaceAll ws_plus (asc '' '') q)
      in q)"

section \<open>Intent objects\<close>

text \<open>
  The intent is a plain object whose fields are present or absent depending on the site
  that creates it; every optional field is an \<open>option\<close>. \<open>conditionPref\<close> only ever
  holds \<^verbatim>\<open>'used'\<close>, \<^verbatim>\<open>'new'\<close> or \<^verbatim>\<open>null\<close>.
\<close>

datatype intent_type =
  EAN | SKU | MODEL | BRAND | COMPOUND | PARAMETRIC | CATEGORY | PRICE | GENERAL

datatype condition = Used | New

record intent =
  itype :: intent_type
  query :: "jstring option"
  modelQuery :: "jstring option"
  brand :: "jstring option"
  isBodyQuery :: "bool option"
  accessoryCategory :: "jstring option"
  category :: "jstring option"
  maxPrice :: "nat option"
  conditionPref :: "condition option"
  wantsAccessories :: "bool option"
  params :: "(string \<times> json) list option"
  detectedCategory :: "jstring option"
  compatMounts :: "jstring list option"
  compatibilityMode :: "bool option"
  textQuery :: "jstring option"

definition plain_intent :: "intent_type \<Rightarrow> jstring \<Rightarrow> intent" where
  "plain_intent t q =
     \<lparr> itype = t, query = Some q, modelQuery = None, brand = None, isBodyQuery = None,
       accessoryCategory = None, category = None, maxPrice = None, conditionPref = None,
       wantsAccessories = None, params = None, detectedCategory = None, compatMounts = None,
       compatibilityMode = None, textQuery = None \<rparr>"

section \<open>Intent classifier\<close>

definition KNOWN_BRANDS :: "jstring list" where
  "KNOWN_BRANDS =
     [asc ''canon'', asc ''sony'', asc ''nikon'', asc ''fujifilm'', asc ''fuji'',
      asc ''panasonic'', asc ''lumix'', asc ''olympus'', asc ''om system'', asc ''leica'',
      asc ''sigma'', asc ''tamron'', asc ''viltrox'', asc ''samyang'', asc ''godox'',
      asc ''profoto'', asc ''manfrotto'', asc ''benro'', asc ''gitzo'', asc ''peak design'',
      asc ''lowepro'', asc ''hoya'', asc ''b+w'', asc ''nisi'', asc ''dji'', asc ''gopro'',
      asc ''sandisk'', asc ''lexar'', asc ''kingston'', asc ''zhiyun'', asc ''rode'',
      asc ''sennheiser'', asc ''smallrig'', asc ''fomei'', asc ''patona'', asc ''newell'',
      asc ''savage'', asc ''marumi'', asc ''epson'', asc ''glareone'', asc ''hasselblad'',
      asc ''ricoh'', asc ''pentax'', asc ''zeiss'', asc ''tokina'', asc ''laowa'',
      asc ''joby'', asc ''tether tools'', asc ''elinchrom'', asc ''broncolor'', asc ''aputure'']"


text \<open>\<^verbatim>\<open>BRAND_PATTERN\<close>: the brands as alternatives of one capture group between word boundaries.\<close>

definition BRAND_PATTERN :: regex where
  "BRAND_PATTERN = seqs [WordB, Grp 1 (alts (map liti KNOWN_BRANDS)), WordB]"

definition CATEGORY_NAMES :: "(jstring \<times> jstring) list" where
  "CATEGORY_NAMES =
     [(asc ''aparaty'', asc ''Aparaty cyfrowe''),
      (asc ''aparaty cyfrowe'', asc ''Aparaty cyfrowe''),
      (asc ''aparaty bezlusterkowe'', asc ''Aparaty cyfrowe''),
      (asc ''bezlusterkowce'', asc ''Aparaty cyfrowe''),
      (asc ''mirrorless'', asc ''Aparaty cyfrowe''),
      (asc ''lustrzanki'', asc ''Aparaty cyfrowe''), (asc ''dslr'', asc ''Aparaty cyfrowe''),
      (asc ''aparaty analogowe'', asc ''Aparaty analogowe''),
      (asc ''analogowe'', asc ''Aparaty analogowe''),
      (asc ''obiektywy'', asc ''Obiektywy do bezlusterkowc'' @ [243] @ asc ''w''),
      (asc ''obiektyw'', asc ''Obiektywy do bezlusterkowc'' @ [243] @ asc ''w''),
      (asc ''obiektywy do bezlusterkowc'' @ [243] @ asc ''w'', asc ''Obiektywy do bezlusterkowc'' @ [243] @ asc ''w''),
      (asc ''obiektywy do lustrzanek'', asc ''Obiektywy do lustrzanek''),
      (asc ''statywy'', asc ''Statywy i akcesoria''),
      (asc ''statyw'', asc ''Statywy i akcesoria''),
      (asc ''lampy b'' @ [322] @ asc ''yskowe'', asc ''Lampy b'' @ [322] @ asc ''yskowe''),
      (asc ''lampy'', asc ''Lampy b'' @ [322] @ asc ''yskowe''),
      (asc ''flesz'', asc ''Lampy b'' @ [322] @ asc ''yskowe''),
      (asc ''flash'', asc ''Lampy b'' @ [322] @ asc ''yskowe''),
      (asc ''lampy studyjne'', asc ''Lampy b'' @ [322] @ asc ''yskowe studyjne''),
      (asc ''o'' @ [347] @ asc ''wietlenie'', asc ''Lampy '' @ [347] @ asc ''wiat'' @ [322] @ asc ''a ci'' @ [261] @ asc ''g'' @ [322] @ asc ''ego''),
      (asc ''lampy wideo'', asc ''Lampy wideo''),
      (asc ''softboxy'', asc ''Softboxy i akcesoria''),
      (asc ''filtry'', asc ''Filtry, pokrywki''), (asc ''filtr'', asc ''Filtry, pokrywki''),
      (asc ''filtry nd'', asc ''Filtry, pokrywki''),
      (asc ''filtry uv'', asc ''Filtry, pokrywki''),
      (asc ''filtry prostok'' @ [261] @ asc ''tne'', asc ''Filtry prostok'' @ [261] @ asc ''tne''),
      (asc ''karty pami'' @ [281] @ asc ''ci'', asc ''Karty pami'' @ [281] @ asc ''ci''),
      (asc ''karty sd'', asc ''Karty pami'' @ [281] @ asc ''ci''),
      (asc ''karty cf'', asc ''Karty pami'' @ [281] @ asc ''ci''),
      (asc ''torby'', asc ''Torby, plecaki, walizki''),
      (asc ''plecaki'', asc ''Torby, plecaki, walizki''),
      (asc ''plecak'', asc ''Torby, plecaki, walizki''),
      (asc ''walizki'', asc ''Torby, plecaki, walizki''), (asc ''drony'', asc ''Drony''),
      (asc ''dron'', asc ''Drony''), (asc ''kamery'', asc ''Kamery cyfrowe''),
      (asc ''kamera'', asc ''Kamery cyfrowe''),
      (asc ''kamery sportowe'', asc ''Kamery sportowe''),
      (asc ''gopro'', asc ''Kamery sportowe''),
      (asc ''kamery internetowe'', asc ''Kamery internetowe''),
      (asc ''gimbale'', asc ''Systemy stabilizacji''),
      (asc ''gimbal'', asc ''Systemy stabilizacji''),
      (asc ''stabilizatory'', asc ''Systemy stabilizacji''), (asc ''audio'', asc ''Audio''),
      (asc ''mikrofon'', asc ''Audio''), (asc ''mikrofony'', asc ''Audio''),
      (asc ''s'' @ [322] @ asc ''uchawki'', asc ''S'' @ [322] @ asc ''uchawki''),
      (asc ''akumulatory'', asc ''Akumulatory''), (asc ''akumulator'', asc ''Akumulatory''),
      (asc ''baterie'', asc ''Akumulatory''),
      ([322] @ asc ''adowarki'', [321] @ asc ''adowarki''),
      (asc ''zasilanie'', asc ''Zasilanie''), (asc ''lornetki'', asc ''Lornetki''),
      (asc ''lornetka'', asc ''Lornetki''), (asc ''lunety'', asc ''Lunety''),
      (asc ''teleskopy'', asc ''Teleskopy''), (asc ''monitory'', asc ''Monitory''),
      (asc ''monitor'', asc ''Monitory''), (asc ''drukarki'', asc ''Drukarki''),
      (asc ''drukarka'', asc ''Drukarki''), (asc ''skanery'', asc ''Skanery''),
      (asc ''tablety'', asc ''Tablety''), (asc ''etui'', asc ''Etui''),
      (asc ''paski'', asc ''Paski i szelki''), (asc ''adaptery'', asc ''Adaptery bagnetowe''),
      (asc ''dyski'', asc ''Dyski twarde''),
      (asc ''t'' @ [322] @ asc ''a'', asc ''T'' @ [322] @ asc ''a i systemy zawieszania''),
      (asc ''papier'', asc ''Papier fotograficzny''),
      (asc ''u'' @ [380] @ asc ''ywane'', asc ''U'' @ [380] @ asc ''ywane aparaty cyfrowe'')]"


text \<open>\<open>bw s\<close> is \<^verbatim>\<open>^s\b\<close>, \<open>ww s\<close> is \<^verbatim>\<open>\bs\b\<close>, both under the \<^verbatim>\<open>i\<close> flag.\<close>

definition bw :: "regex list \<Rightarrow> regex" where
  "bw rs = seqs (Bol # rs @ [WordB])"

definition ww :: "regex list \<Rightarrow> regex" where
  "ww rs = seqs (WordB # rs @ [WordB])"

definition olympus_models :: "regex list" where
  "olympus_models =
     [bw [T ''om'', Opt (lit (asc ''-'')), D], bw [T ''e'', Opt (lit (asc ''-'')), T ''m'', D]]"

definition fuji_body :: regex where
  "fuji_body =
     alts [seqs [Bol, T ''x'', Opt (lit (asc ''-'')), letter_i, D],
           seqs [Bol, T ''x'', Opt (lit (asc ''-'')), one_of_i (asc ''thsep''), D],
           bw [T ''x100''], bw [T ''gfx'']]"

definition panasonic_models :: "regex list" where
  "panasonic_models = [bw [T ''s'', D], bw [T ''s5''], bw [T ''gh'', D], bw [T ''g'', D]]"

definition BODY_MODEL_PATTERNS :: "(jstring \<times> regex) list" where
  "BODY_MODEL_PATTERNS =
     [(asc ''sony'',
         alts [bw [T ''a'', Cls [(49, 57)]], bw [T ''a7'', Opt (one_of_i (asc ''crs''))],
               bw [T ''a6'', rep 3 D], bw [T ''a9''], bw [T ''alpha''],
               seqs [Bol, T ''fx'', D]]),
      (asc ''canon'',
         alts [bw [T ''eos''], bw [T ''r'', D], bw [T ''r5''], bw [T ''r6''], bw [T ''r7''],
               bw [T ''r8''], bw [T ''r10''], bw [T ''r50''], bw [T ''r100''],
               bw [T ''powershot''], bw [T ''1d''], bw [T ''5d''], bw [T ''6d''],
               bw [T ''7d''], bw [T ''80d''], bw [T ''90d'']]),
      (asc ''nikon'',
         alts [bw [T ''z'', D], bw [T ''z5''], bw [T ''z6''], bw [T ''z7''], bw [T ''z8''],
               bw [T ''z9''], bw [T ''z30''], bw [T ''z50''], bw [T ''zf''], bw [T ''zfc''],
               bw [T ''d'', rep_range 3 4 D]]),
      (asc ''fujifilm'', fuji_body),
      (asc ''fuji'', fuji_body),
      (asc ''panasonic'', alts (panasonic_models @ [bw [T ''lumix'']])),
      (asc ''lumix'', alts panasonic_models),
      (asc ''olympus'', alts (olympus_models @ [bw [T ''pen'']])),
      (asc ''om system'', alts olympus_models),
      (asc ''leica'',
         alts [bw [T ''sl'', Opt D], bw [T ''q'', Opt D], bw [T ''m'', rep_range 1 2 D],
               bw [T ''cl'']]),
      (asc ''hasselblad'', alts [bw [T ''x'', D, T ''d''], bw [T ''907'']]),
      (asc ''ricoh'', alts [bw [T ''gr''], bw [T ''theta'']]),
      (asc ''pentax'', bw [T ''k'', Opt (lit (asc ''-'')), D]),
      (asc ''dji'',
         alts [bw [T ''mavic''], bw [T ''mini''], bw [T ''air''], bw [T ''phantom''],
               bw [T ''osmo''], bw [T ''pocket''], bw [T ''avata''], bw [T ''action'']]),
      (asc ''gopro'', alts [bw [T ''hero''], bw [T ''max'']])]"

definition detectBodyQuery :: "jstring \<Rightarrow> jstring \<Rightarrow> bool" where
  "detectBodyQuery b afterBrand =
     (case map_of BODY_MODEL_PATTERNS (toLowerCase b) of
        Some pat \<Rightarrow> test pat afterBrand
      | None \<Rightarrow> False)"

definition MODEL_TO_BRAND :: "(regex \<times> jstring) list" where
  "MODEL_TO_BRAND =
     [(alts [ww [T ''eos''], bw [T ''r'', D], bw [T ''r5''], bw [T ''r6''], bw [T ''r7''],
             bw [T ''r8''], bw [T ''r10''], bw [T ''r50''], bw [T ''r100''],
             bw [T ''powershot''], ww [T ''1d''], ww [T ''5d''], ww [T ''6d''], ww [T ''7d''],
             ww [T ''80d''], ww [T ''90d'']], asc ''canon''),
      (alts [ww [T ''alpha''], bw [T ''a'', Cls [(49, 57)]],
             bw [T ''a7'', Opt (one_of_i (asc ''crs''))], bw [T ''a6'', rep 3 D], bw [T ''a9''],
             seqs [Bol, T ''zv'', Opt (lit (asc ''-'')), Cls ((48, 57) # case_pair 101)]],
         asc ''sony''),
      (alts [ww [T ''lumix''], bw [T ''gh'', D], bw [T ''g'', D], bw [T ''s5'']],
         asc ''panasonic''),
      (alts [seqs [Bol, T ''x'', Opt (lit (asc ''-'')), T ''t'', D],
             seqs [Bol, T ''x'', Opt (lit (asc ''-'')), one_of_i (asc ''hsep''), D],
             bw [T ''x100''], bw [T ''gfx''],
             seqs [Bol, T ''x'', Opt (lit (asc ''-'')), T ''pro'']], asc ''fujifilm''),
      (alts [bw [T ''z'', Cls [(53, 57)]], bw [T ''z30''], bw [T ''z50''], bw [T ''zf''],
             bw [T ''zfc''], bw [T ''d'', Cls [(51, 57)], rep 2 D], bw [T ''d'', rep 4 D]],
         asc ''nikon''),
      (alts [ww [T ''mavic''], ww [T ''osmo''], ww [T ''phantom''], ww [T ''avata'']],
         asc ''dji''),
      (ww [T ''hero''], asc ''gopro''),
      (alts (olympus_models @ [bw [T ''pen'']]), asc ''olympus''),
      (alts [bw [T ''gr''], bw [T ''theta'']], asc ''ricoh''),
      (bw [T ''k'', Opt (lit (asc ''-'')), D], asc ''pentax'')]"

text \<open>The modifier patterns end in \<^verbatim>\<open>(?:\b|$)\<close>.\<close>

definition word_end :: regex where
  "word_end = Alt WordB Eol"

definition USED_PATTERN :: regex where
  "USED_PATTERN =
     seqs [WordB,
           alts [seqs [liti (asc ''u'' @ [380] @ asc ''yw''), Star W],
                 seqs [T ''uzyw'', Star W],
                 seqs [T ''second'', Opt (Cls (space_cls @ [(45, 45)])), T ''hand''],
                 seqs [T ''poleasingow'', Star W]],
           word_end]"

definition NEW_PATTERN :: regex where
  "NEW_PATTERN =
     seqs [WordB,
           alts [seqs [T ''now'', one_of_i (asc ''yaeio'')],
                 seqs [T ''fabryczni'', Opt (T ''e''), Star S, T ''now'', one_of_i (asc ''yaeio'')],
                 liti (asc ''n'' @ [243] @ asc ''wka'')],
           word_end]"

definition ACCESSORY_PATTERN :: regex where
  "ACCESSORY_PATTERN =
     seqs [WordB,
           alts [seqs [T ''akceso'', Star W],
                 seqs [T ''accesso'', Star W],
                 seqs [T ''klatk'', one_of_i (asc ''ai'' @ [281]), Star W],
                 seqs [T ''grip'', Star W],
                 seqs [liti (asc ''os'' @ [322] @ asc ''on''), Star W],
                 seqs [T ''etui'', Star W],
                 seqs [T ''filtr'', Star W],
                 seqs [T ''torb'', one_of_i (asc ''a'' @ [281] @ asc ''y''), Star W],
                 seqs [T ''plecak'', Star W],
                 seqs [T ''pasek'', Star W],
                 seqs [liti ([322] @ asc ''adowark''), Star W],
                 seqs [T ''akumulat'', Star W],
                 seqs [T ''bateri'', Star W]],
           word_end]"

definition PATTERNS_EAN :: regex where
  "PATTERNS_EAN = Alt (seqs [Bol, rep 8 D, Eol]) (seqs [Bol, rep 13 D, Eol])"

definition PATTERNS_SKU :: regex where
  "PATTERNS_SKU =
     seqs [Bol, rep_range 2 4 letter_i, one_of (asc ''-_''), Star letter_i, D, Star alnum_i]"

definition PARAMETRIC_APERTURE :: regex where
  "PARAMETRIC_APERTURE = seqs [T ''f'', lit (asc ''/''), Plus D, Opt (lit (asc ''.'')), Star D]"

definition PARAMETRIC_FOCAL :: regex where
  "PARAMETRIC_FOCAL = seqs [Plus D, Opt (Seq (lit (asc ''-'')) (Plus D)), Star S, T ''mm'']"

definition PARAMETRIC_RES :: regex where
  "PARAMETRIC_RES = seqs [WordB, Plus D, one_of (asc ''kK''), WordB]"

definition PARAMETRIC_FPS :: regex where
  "PARAMETRIC_FPS = seqs [Plus D, Star S, T ''fps'']"

definition PARAMETRIC_SENSOR :: regex where
  "PARAMETRIC_SENSOR =
     seqs [WordB,
           alts [seqs [T ''full'', Star S, T ''frame''],
                 seqs [T ''aps'', Opt (lit (asc ''-'')), T ''c''],
                 seqs [T ''micro'', Star S, lit (asc ''4/3'')],
                 T ''m43'',
                 pelna_klatka],
           WordB]"

definition PARAMETRIC_MOUNT :: regex where
  "PARAMETRIC_MOUNT = seqs [WordB, mount_alternatives, WordB]"

definition PATTERNS_PRICE :: regex where
  "PATTERNS_PRICE =
     alts [seqs [T ''do'', Plus S, Grp 1 (Plus D), Star S,
                 Opt (Alt (liti (asc ''z'' @ [322])) (T ''pln''))],
           seqs [liti (asc ''poni'' @ [380] @ asc ''ej''), Plus S, Grp 2 (Plus D)],
           seqs [T ''tani'', Opt (one_of_i (asc ''ae'')), WordB]]"

definition inferBrandFromModel :: "jstring \<Rightarrow> (jstring \<times> bool) option" where
  "inferBrandFromModel q =
     (let cleaned = trim (replace NEW_PATTERN [] (replace USED_PATTERN [] q))
      in case find (\<lambda>(pat, b). test pat cleaned) MODEL_TO_BRAND of
           Some (pat, b) \<Rightarrow> Some (b, detectBodyQuery b cleaned)
         | None \<Rightarrow> None)"

definition detectConditionPreference :: "jstring \<Rightarrow> condition option" where
  "detectConditionPreference q =
     (if test USED_PATTERN q then Some Used
      else if test NEW_PATTERN q then Some New
      else None)"

definition detectAccessoryPreference :: "jstring \<Rightarrow> bool" where
  "detectAccessoryPreference q = test ACCESSORY_PATTERN q"

definition ACCESSORY_TO_CATEGORY :: "(jstring \<times> jstring option) list" where
  "ACCESSORY_TO_CATEGORY =
     [(asc ''akumulator'', Some (asc ''Akumulatory'')),
      (asc ''akumulatory'', Some (asc ''Akumulatory'')),
      (asc ''bateria'', Some (asc ''Akumulatory'')),
      (asc ''baterie'', Some (asc ''Akumulatory'')),
      ([322] @ asc ''adowarka'', Some ([321] @ asc ''adowarki'')),
      ([322] @ asc ''adowarki'', Some ([321] @ asc ''adowarki'')),
      (asc ''filtr'', Some (asc ''Filtry, pokrywki'')),
      (asc ''filtry'', Some (asc ''Filtry, pokrywki'')),
      (asc ''torba'', Some (asc ''Torby, plecaki, walizki'')),
      (asc ''torby'', Some (asc ''Torby, plecaki, walizki'')),
      (asc ''plecak'', Some (asc ''Torby, plecaki, walizki'')),
      (asc ''plecaki'', Some (asc ''Torby, plecaki, walizki'')),
      (asc ''etui'', Some (asc ''Etui'')), (asc ''grip'', Some (asc ''Akumulatory'')),
      (asc ''gripy'', Some (asc ''Akumulatory'')),
      (asc ''klatka'', Some (asc ''Rigi i akcesoria'')),
      (asc ''klatki'', Some (asc ''Rigi i akcesoria'')),
      (asc ''os'' @ [322] @ asc ''ona'', Some (asc ''Akcesoria drobne'')),
      (asc ''os'' @ [322] @ asc ''ony'', Some (asc ''Akcesoria drobne'')),
      (asc ''pasek'', Some (asc ''Paski i szelki'')),
      (asc ''paski'', Some (asc ''Paski i szelki'')), (asc ''akcesoria'', None)]"

text \<open>
  \<^verbatim>\<open>detectAccessoryCategory\<close>: per word the exact entry, else the first entry whose key
  starts with the word when the word has at least four units. The first word that finds an
  entry decides, also when the entry holds \<^verbatim>\<open>null\<close>.
\<close>

definition word_category :: "jstring \<Rightarrow> jstring option option" where
  "word_category w =
     (case map_of ACCESSORY_TO_CATEGORY w of
        Some cat \<Rightarrow> Some cat
      | None \<Rightarrow>
          map_option snd
            (find (\<lambda>(key, cat). startsWith key w \<and> length w \<ge> 4) ACCESSORY_TO_CATEGORY))"

fun first_category :: "jstring list \<Rightarrow> jstring option" where
  "first_category [] = None"
| "first_category (w # ws) =
     (case word_category w of Some cat \<Rightarrow> cat | None \<Rightarrow> first_category ws)"

definition detectAccessoryCategory :: "jstring \<Rightarrow> jstring option" where
  "detectAccessoryCategory q = first_category (js_split ws_plus (toLowerCase q))"

definition stripModifierWords :: "jstring \<Rightarrow> jstring" where
  "stripModifierWords q =
     trim (replaceAll ws_plus (asc '' '')
       (replace NEW_PATTERN [] (replace USED_PATTERN [] (replace ACCESSORY_PATTERN [] q))))"

definition hasParam :: "jstring \<Rightarrow> bool" where
  "hasParam q =
     (test PARAMETRIC_APERTURE q \<or> test PARAMETRIC_FOCAL q \<or> test PARAMETRIC_RES q
      \<or> test PARAMETRIC_FPS q \<or> test PARAMETRIC_SENSOR q \<or> test PARAMETRIC_MOUNT q)"

text \<open>
  \<^verbatim>\<open>parseInt(priceMatch[1] || priceMatch[2], 10) || null\<close>: a missing group and the
  number 0 both give \<^verbatim>\<open>null\<close>.
\<close>

definition price_of :: "rmatch \<Rightarrow> nat option" where
  "price_of pm =
     (case (case group pm 1 of
              Some g \<Rightarrow> if g = [] then group pm 2 else Some g
            | None \<Rightarrow> group pm 2) of
        None \<Rightarrow> None
      | Some g \<Rightarrow> if parseInt g = 0 then None else Some (parseInt g))"

text \<open>
  \<^verbatim>\<open>classifyIntent\<close>. The argument is the query string; \<^verbatim>\<open>(query || '')\<close> makes a
  missing query the empty string. The rules are tried in the order of the source and the
  first that applies returns.
\<close>

definition classifyIntent :: "jstring \<Rightarrow> intent" where
  "classifyIntent query0 =
     (let q = trim query0;
          cp = detectConditionPreference q;
          wa = detectAccessoryPreference q;
          ac = (if wa then detectAccessoryCategory q else None);
          base = (\<lambda>t. (plain_intent t q)\<lparr>conditionPref := cp, wantsAccessories := Some wa\<rparr>)
      in if test PATTERNS_EAN q then base EAN
         else if test PATTERNS_SKU q then base SKU
         else case exec BRAND_PATTERN q of
           Some bm \<Rightarrow>
             (let afterBrand = trim (m_after bm) in
              if test alnum_i afterBrand then
                (base MODEL)\<lparr>modelQuery := Some (stripModifierWords q),
                             brand := Some (grp bm 1),
                             isBodyQuery :=
                               Some (if wa then False else detectBodyQuery (grp bm 1) afterBrand),
                             accessoryCategory := ac\<rparr>
              else (base BRAND)\<lparr>brand := Some (grp bm 1), accessoryCategory := ac\<rparr>)
         | None \<Rightarrow>
             (case inferBrandFromModel q of
                Some (b, body) \<Rightarrow>
                  (base MODEL)\<lparr>modelQuery := Some (stripModifierWords q),
                               brand := Some b,
                               isBodyQuery := Some (if wa then False else body),
                               accessoryCategory := ac\<rparr>
              | None \<Rightarrow>
                  if hasParam q then base PARAMETRIC
                  else
                    (case map_of CATEGORY_NAMES (toLowerCase q) of
                       Some mapped \<Rightarrow> (base CATEGORY)\<lparr>category := Some mapped\<rparr>
                     | None \<Rightarrow>
                         (case exec PATTERNS_PRICE q of
                            Some pm \<Rightarrow>
                              (let cleanQuery = trim (replace PATTERNS_PRICE [] q) in
                               (base PRICE)\<lparr>query := Some (if cleanQuery = [] then q else cleanQuery),
                                            maxPrice := price_of pm\<rparr>)
                          | None \<Rightarrow> base GENERAL))))"

subsection \<open>Shapes of input the specification names\<close>

text \<open>
  The manufacturer-code shape: 2 to 4 letters, a separator \<open>-\<close> or \<open>_\<close>, then a suffix of
  letters and digits with at least one digit. Letters are the ASCII letters of either case,
  as in the pattern.
\<close>

definition sku_shape :: "jstring \<Rightarrow> bool" where
  "sku_shape s =
     (let ls = takeWhile (\<lambda>c. in_cls c letter_cls) s
      in 2 \<le> length ls \<and> length ls \<le> 4
         \<and> (case drop (length ls) s of
               [] \<Rightarrow> False
             | sep # suf \<Rightarrow>
                 (sep = 45 \<or> sep = 95)
                 \<and> list_all (\<lambda>c. in_cls c (letter_cls @ digit_cls)) suf
                 \<and> list_ex (\<lambda>c. in_cls c digit_cls) suf))"

text \<open>A text no rule of the cascade applies to, and the intent of the default rule.\<close>

definition unmatched :: "jstring \<Rightarrow> bool" where
  "unmatched q =
     (\<not> test PATTERNS_EAN q \<and> \<not> test PATTERNS_SKU q \<and> exec BRAND_PATTERN q = None
      \<and> inferBrandFromModel q = None \<and> \<not> hasParam q
      \<and> map_of CATEGORY_NAMES (toLowerCase q) = None \<and> exec PATTERNS_PRICE q = None)"

definition general_intent :: "jstring \<Rightarrow> intent" where
  "general_intent q =
     (plain_intent GENERAL q)\<lparr>conditionPref := detectConditionPreference q,
                                wantsAccessories := Some (detectAccessoryPreference q)\<rparr>"

section \<open>Ranking service: wrapWithFunctionScore\<close>

text \<open>
  The function-score envelope is a list of scoring functions: a weight guarded by a filter,
  a script, or a decay function. Each Painless script of the source is one constructor of
  \<open>script\<close>; its meaning is \<open>run_script\<close> below.
\<close>

datatype fval = Num real | Str jstring | Bool bool

datatype es_filter = Term string fval | Terms string "jstring list"

datatype script =
    Sales30d | Sales365d | Revenue | Ga4Popularity | Ga4Conversion | Ga4Trending
  | Margin | Rating | SkuSpecificity

datatype score_fn =
    Weight es_filter real
  | ScriptScore script
  | Gauss string jstring jstring real

record 'q function_score =
  fs_query :: 'q
  score_mode :: string
  boost_mode :: string
  fs_functions :: "score_fn list"

definition ACCESSORY_CATEGORIES :: "jstring list" where
  "ACCESSORY_CATEGORIES =
     [asc ''Rigi i akcesoria'', asc ''Akumulatory'', 321 # asc ''adowarki'',
      asc ''Akcesoria drobne'', asc ''Os'' @ 322 # asc ''ony'',
      asc ''Torby, plecaki, walizki'', asc ''Filtry, pokrywki'', asc ''Paski i szelki'',
      asc ''Zasilanie'', asc ''Zasilacze'', asc ''Kable'', asc ''Etui'', asc ''Czytniki'',
      asc ''Lampy wideo'', asc ''Wyzwalanie lamp studyjnych'', asc ''Slidery'',
      asc ''Monitory podgl'' @ 261 # asc ''dowe'']"

definition BODY_PRODUCT_CATEGORIES :: "jstring list" where
  "BODY_PRODUCT_CATEGORIES =
     [asc ''Aparaty cyfrowe'', asc ''U'' @ 380 # asc ''ywane aparaty cyfrowe'',
      asc ''Kamery cyfrowe'', asc ''Kamery sportowe'', asc ''Drony'']"

definition lens_categories :: "jstring list" where
  "lens_categories =
     [asc ''Obiektywy do bezlusterkowc'' @ 243 # asc ''w'', asc ''Obiektywy do lustrzanek'',
      asc ''Obiektywy do filmowania'', asc ''U'' @ 380 # asc ''ywane obiektywy'']"

text \<open>
  \<^verbatim>\<open>newWeight\<close> and \<^verbatim>\<open>usedWeight\<close>: the defaults 1.3 and 0.55, reassigned when the
  preference is \<^verbatim>\<open>'used'\<close> or \<^verbatim>\<open>'new'\<close>.
\<close>

definition newWeight :: "condition option \<Rightarrow> real" where
  "newWeight pref = (if pref = Some Used then 0.55 else if pref = Some New then 1.5 else 1.3)"

definition usedWeight :: "condition option \<Rightarrow> real" where
  "usedWeight pref = (if pref = Some Used then 1.8 else if pref = Some New then 0.4 else 0.55)"

text \<open>
  The intent parameter defaults to \<^verbatim>\<open>null\<close>; \<^verbatim>\<open>intent?.f === true\<close> is false on a
  missing intent and on a missing field.
\<close>

definition wrapWithFunctionScore :: "'q \<Rightarrow> intent option \<Rightarrow> 'q function_score" where
  "wrapWithFunctionScore baseQuery i =
     (let isBody = (case i of None \<Rightarrow> False | Some x \<Rightarrow> isBodyQuery x = Some True);
          wantsAcc = (case i of None \<Rightarrow> False | Some x \<Rightarrow> wantsAccessories x = Some True);
          isSKUQuery = (case i of None \<Rightarrow> False | Some x \<Rightarrow> itype x = SKU);
          pref = (case i of None \<Rightarrow> None | Some x \<Rightarrow> conditionPref x)
      in \<lparr> fs_query = baseQuery,
           score_mode = ''multiply'',
           boost_mode = ''multiply'',
           fs_functions =
             [Weight (Term ''availability'' (Str (asc ''in_stock''))) 1.5,
              Weight (Term ''availability'' (Str (asc ''na_zamowienie''))) 0.8,
              Weight (Term ''availability'' (Str (asc ''out_of_stock''))) 0.3,
              ScriptScore Sales30d,
              ScriptScore Sales365d,
              ScriptScore Revenue,
              ScriptScore Ga4Popularity,
              ScriptScore Ga4Conversion,
              ScriptScore Ga4Trending,
              ScriptScore Margin,
              Gauss ''created_at'' (asc ''now'') (asc ''60d'') 0.5,
              Weight (Term ''is_promo'' (Bool True)) 1.3,
              ScriptScore Rating,
              Weight (Term ''has_image'' (Bool False)) 0.1,
              Weight (Term ''condition'' (Str (asc ''new''))) (newWeight pref),
              Weight (Term ''condition'' (Str (asc ''used''))) (usedWeight pref),
              Weight (Term ''is_bestseller'' (Bool True)) 1.15,
              Weight (Term ''is_highlighted'' (Bool True)) 1.1]
             @ (if isSKUQuery then [ScriptScore SkuSpecificity] else [])
             @ (if isBody then
                  [Weight (Terms ''category'' BODY_PRODUCT_CATEGORIES) 8.0,
                   Weight (Terms ''category'' lens_categories) 3.0,
                   Weight (Terms ''category'' ACCESSORY_CATEGORIES) 0.08]
                else if wantsAcc then
                  [Weight (Terms ''category'' ACCESSORY_CATEGORIES) 5.0,
                   Weight (Terms ''category'' BODY_PRODUCT_CATEGORIES) 0.1]
                else []) \<rparr>)"

text \<open>The weights the envelope attaches to a given filter, in order of appearance.\<close>

fun weights_of :: "es_filter \<Rightarrow> score_fn list \<Rightarrow> real list" where
  "weights_of f [] = []"
| "weights_of f (Weight g w # fs) = (if g = f then w # weights_of f fs else weights_of f fs)"
| "weights_of f (_ # fs) = weights_of f fs"

definition condition_weights :: "'q function_score \<Rightarrow> real list \<times> real list" where
  "condition_weights e =
     (weights_of (Term ''condition'' (Str (asc ''new''))) (fs_functions e),
      weights_of (Term ''condition'' (Str (asc ''used''))) (fs_functions e))"

text \<open>The table of the specification: \<open>(W_new, W_used)\<close> per condition preference.\<close>

definition spec_condition_weights :: "condition option \<Rightarrow> real \<times> real" where
  "spec_condition_weights pref =
     (case pref of Some Used \<Rightarrow> (0.55, 1.8) | Some New \<Rightarrow> (1.5, 0.4) | None \<Rightarrow> (1.3, 0.55))"

definition pref_of :: "intent option \<Rightarrow> condition option" where
  "pref_of i = (case i of None \<Rightarrow> None | Some x \<Rightarrow> conditionPref x)"

subsection \<open>What the index computes from the envelope\<close>

text \<open>
  A document maps field names to values. A script that reads \<^verbatim>\<open>doc['f'].value\<close> of a
  field the document lacks fails (\<open>None\<close>); \<^verbatim>\<open>doc.containsKey('f') && doc['f'].size() > 0\<close>
  is \<open>has_value\<close>. Scores are real numbers; \<^verbatim>\<open>Math.log1p(x)\<close> is \<open>ln (1 + x)\<close>.
\<close>

type_synonym doc = "string \<Rightarrow> fval option"










fun omul :: "real option \<Rightarrow> real option \<Rightarrow> real option" where
  "omul (Some x) (Some y) = Some (x * y)"
| "omul _ _ = None"








section \<open>Query builder\<close>

text \<open>
  A failed call of the index client (a rejected promise) and a \<^verbatim>\<open>TypeError\<close> raised by
  a method call on a missing value are the two ways the modelled functions can throw.
\<close>

datatype error = IndexError | TypeError

definition sa :: "string \<Rightarrow> json" where
  "sa s = JStr (asc s)"

text \<open>A field whose value is \<^verbatim>\<open>undefined\<close> or \<^verbatim>\<open>null\<close> is written \<open>JNull\<close>.\<close>

definition ostr :: "jstring option \<Rightarrow> json" where
  "ostr v = (case v of Some x \<Rightarrow> JStr x | None \<Rightarrow> JNull)"

definition BRAND_CASE_MAP :: "(jstring \<times> jstring) list" where
  "BRAND_CASE_MAP =
     [(asc ''dji'', asc ''DJI''), (asc ''nisi'', asc ''NISI''), (asc ''nanlite'', asc ''NANLITE''),
      (asc ''b+w'', asc ''B+W''), (asc ''gopro'', asc ''GoPro''),
      (asc ''glareone'', asc ''GlareOne''), (asc ''peak design'', asc ''Peak Design''),
      (asc ''om system'', asc ''OM System''), (asc ''easycover'', asc ''EasyCover''),
      (asc ''blackmagic'', asc ''Blackmagic''), (asc ''venus optics'', asc ''Venus Optics''),
      (asc ''insta360'', asc ''Insta360'')]"

text \<open>\<^verbatim>\<open>lower.replace(/\b\w/g, (c) => c.toUpperCase())\<close>: each word unit at a word start becomes upper case.\<close>

fun capitalize :: "nat list \<Rightarrow> jstring \<Rightarrow> jstring" where
  "capitalize l [] = []"
| "capitalize l (c # cs) =
     (if in_cls c word_cls \<and> at_boundary l (c # cs) then upper_cu c else c) # capitalize (c # l) cs"

definition normalizeBrandCase :: "jstring \<Rightarrow> jstring" where
  "normalizeBrandCase b =
     (case map_of BRAND_CASE_MAP (toLowerCase b) of
        Some v \<Rightarrow> v
      | None \<Rightarrow> capitalize [] (toLowerCase b))"

definition NAME_FIELDS :: json where
  "NAME_FIELDS =
     JArr [sa ''name.exact^10'', sa ''model_code^8'', sa ''name.prefix^4'', sa ''name.folded^3'',
           sa ''name.morfologik^2'', sa ''name.stempel^1'', sa ''description^0.5'']"

definition NAME_FIELDS_LIGHT :: json where
  "NAME_FIELDS_LIGHT =
     JArr [sa ''name.exact^10'', sa ''name.prefix^4'', sa ''name.folded^3'',
           sa ''name.morfologik^2'']"

fun is_prefix :: "'a list \<Rightarrow> 'a list \<Rightarrow> bool" where
  "is_prefix [] ys = True"
| "is_prefix (x # xs) [] = False"
| "is_prefix (x # xs) (y # ys) = (x = y \<and> is_prefix xs ys)"

fun str_includes :: "'a list \<Rightarrow> 'a list \<Rightarrow> bool" where
  "str_includes [] sub = (sub = [])"
| "str_includes (x # xs) sub = (is_prefix sub (x # xs) \<or> str_includes xs sub)"

definition param_filter :: "string \<times> json \<Rightarrow> json" where
  "param_filter fv =
     (case fv of (field, v) \<Rightarrow>
        if str_includes field ''focal_length_min'' then
          JObj [(''range'', JObj [(''params.focal_length_min'', JObj [(''lte'', v)])])]
        else if str_includes field ''focal_length_max'' then
          JObj [(''range'', JObj [(''params.focal_length_max'', JObj [(''gte'', v)])])]
        else JObj [(''term'', JObj [(field, v)])])"

definition buildParamFilters :: "(string \<times> json) list \<Rightarrow> json list" where
  "buildParamFilters ps = map param_filter ps"

record filters =
  f_brand :: "jstring option"
  f_category :: "jstring option"
  f_availability :: "jstring option"
  f_mount :: "jstring option"
  f_price_min :: "real option"
  f_price_max :: "real option"

definition no_filters :: filters where
  "no_filters = \<lparr> f_brand = None, f_category = None, f_availability = None, f_mount = None,
                   f_price_min = None, f_price_max = None \<rparr>"

text \<open>A string filter is applied when it is truthy, that is, present and not empty.\<close>

definition term_clause :: "string \<Rightarrow> jstring option \<Rightarrow> json list" where
  "term_clause field v =
     (case v of
        Some x \<Rightarrow> if x = [] then [] else [JObj [(''term'', JObj [(field, JStr x)])]]
      | None \<Rightarrow> [])"

definition buildFilterClauses :: "filters \<Rightarrow> json list" where
  "buildFilterClauses fs =
     term_clause ''brand'' (f_brand fs)
     @ term_clause ''category'' (f_category fs)
     @ term_clause ''availability'' (f_availability fs)
     @ term_clause ''compatible_mounts'' (f_mount fs)
     @ (if f_price_min fs \<noteq> None \<or> f_price_max fs \<noteq> None then
          [JObj [(''range'', JObj [(''price'',
             JObj ((case f_price_min fs of Some v \<Rightarrow> [(''gte'', JNum v)] | None \<Rightarrow> [])
                   @ (case f_price_max fs of Some v \<Rightarrow> [(''lte'', JNum v)] | None \<Rightarrow> [])))])]]
        else [])"

text \<open>
  The Painless sources of the builder's scripts are kept as opaque texts (line breaks and the
  quotes around field names are left out).
\<close>

definition popular_sort_source :: jstring where
  "popular_sort_source =
     asc ''if (doc.containsKey(ga4.popularity_score) && doc[ga4.popularity_score].size() > 0 && doc[ga4.popularity_score].value > 0) { return doc[ga4.popularity_score].value; } return doc[sales_30d].value * 0.1;''"

definition trending_sort_source :: jstring where
  "trending_sort_source =
     asc ''if (doc.containsKey(ga4.trending_score) && doc[ga4.trending_score].size() > 0) { return doc[ga4.trending_score].value; } return 0;''"

definition name_prefix_source :: jstring where
  "name_prefix_source =
     asc ''String name = doc[name.exact].value.toLowerCase(); if (name.startsWith(params.q)) { return 5.0; } return 1.0;''"

definition category_path_source :: jstring where
  "category_path_source =
     asc ''String path = ; if (doc.containsKey(category_path) && doc[category_path].size() > 0) { path = doc[category_path].value.toLowerCase(); } if (path.contains(pozostale) || path.contains(akcesoria drobne)) { return 0.5; } return 1.0;''"

definition script_sort :: "jstring \<Rightarrow> json" where
  "script_sort src =
     JObj [(''_script'', JObj [(''type'', sa ''number''),
                               (''script'', JObj [(''source'', JStr src)]),
                               (''order'', sa ''desc'')])]"

definition buildSortClause :: "jstring \<Rightarrow> json list" where
  "buildSortClause sortKey =
     (if sortKey = asc ''price_asc'' then [JObj [(''price'', sa ''asc'')], sa ''_score'']
      else if sortKey = asc ''price_desc'' then [JObj [(''price'', sa ''desc'')], sa ''_score'']
      else if sortKey = asc ''newest'' then [JObj [(''created_at'', sa ''desc'')], sa ''_score'']
      else if sortKey = asc ''popular'' then [script_sort popular_sort_source, sa ''_score'']
      else if sortKey = asc ''trending'' then [script_sort trending_sort_source, sa ''_score'']
      else [sa ''_score''])"

definition multi_match :: "jstring \<Rightarrow> json \<Rightarrow> (string \<times> json) list \<Rightarrow> json" where
  "multi_match q flds extra =
     JObj [(''multi_match'',
            JObj ([(''query'', JStr q), (''fields'', flds), (''type'', sa ''best_fields'')] @ extra))]"

definition match_all :: json where
  "match_all = JObj [(''match_all'', JObj [])]"

definition truthy :: "jstring option \<Rightarrow> bool" where
  "truthy v = (case v of Some x \<Rightarrow> x \<noteq> [] | None \<Rightarrow> False)"

definition has_params :: "intent \<Rightarrow> bool" where
  "has_params i = (case params i of Some ps \<Rightarrow> ps \<noteq> [] | None \<Rightarrow> False)"

definition boosted_term :: "string \<Rightarrow> jstring \<Rightarrow> real \<Rightarrow> json" where
  "boosted_term field v b =
     JObj [(''term'', JObj [(field, JObj [(''value'', JStr v), (''boost'', JNum b)])])]"

definition sku_query :: "jstring \<Rightarrow> json" where
  "sku_query q =
     (let skuUpper = toUpperCase q; skuLower = toLowerCase q
      in JObj [(''bool'', JObj
           [(''must'', JArr [multi_match q NAME_FIELDS_LIGHT []]),
            (''should'', JArr
               [boosted_term ''sku'' q 200, boosted_term ''sku'' skuUpper 200,
                boosted_term ''sku'' skuLower 200,
                boosted_term ''manufacturer_code'' q 200,
                boosted_term ''manufacturer_code'' skuUpper 200,
                boosted_term ''manufacturer_code'' skuLower 200,
                boosted_term ''model_code'' q 200, boosted_term ''model_code'' skuUpper 200,
                boosted_term ''model_code'' skuLower 200,
                JObj [(''match_phrase'', JObj [(''name.morfologik'',
                   JObj [(''query'', JStr q), (''boost'', JNum 50)])])]])])])"

definition model_accessory_query :: "jstring \<Rightarrow> intent \<Rightarrow> jstring \<Rightarrow> jstring option \<Rightarrow> json" where
  "model_accessory_query q i mq modelBrand =
     (let accessoryPart = trim (replace (liti mq) [] q);
          model_fields = JArr [sa ''name.folded^3'', sa ''name.morfologik^2''];
          mustClauses =
            [JObj [(''bool'', JObj
               [(''should'', JArr
                   [JObj [(''multi_match'', JObj
                      [(''query'', JStr mq),
                       (''fields'', JArr [sa ''name.folded^3'', sa ''name.morfologik^2'',
                                          sa ''name.prefix^1'']),
                       (''type'', sa ''best_fields'')])],
                    JObj [(''match'', JObj [(''description'',
                       JObj [(''query'', JStr mq), (''operator'', sa ''and'')])])]]),
                (''minimum_should_match'', JNum 1)])]]
            @ (case accessoryCategory i of
                 Some c \<Rightarrow> if c = [] then [] else [JObj [(''term'', JObj [(''category'', JStr c)])]]
               | None \<Rightarrow> []);
          shouldClauses =
            [JObj [(''multi_match'', JObj
               [(''query'', JStr q), (''fields'', NAME_FIELDS), (''type'', sa ''cross_fields''),
                (''boost'', JNum 5)])]]
            @ (if accessoryPart \<noteq> [] then
                 [JObj [(''multi_match'', JObj
                    [(''query'', JStr accessoryPart),
                     (''fields'', JArr [sa ''name.folded^5'', sa ''name.morfologik^3'']),
                     (''type'', sa ''best_fields''), (''boost'', JNum 3)])]]
               else [])
            @ [JObj [(''multi_match'', JObj
                 [(''query'', JStr mq), (''fields'', model_fields), (''type'', sa ''best_fields''),
                  (''boost'', JNum 2)])]]
            @ (case modelBrand of Some b \<Rightarrow> [boosted_term ''brand'' b 8] | None \<Rightarrow> [])
      in JObj [(''bool'', JObj [(''must'', JArr mustClauses), (''should'', JArr shouldClauses)])])"

definition phrase :: "string \<Rightarrow> jstring \<Rightarrow> (string \<times> json) list \<Rightarrow> json" where
  "phrase field q extra = JObj [(''match_phrase'', JObj [(field, JObj ((''query'', JStr q) # extra))])]"

definition model_query :: "jstring \<Rightarrow> intent \<Rightarrow> json" where
  "model_query q i =
     (let modelBrand = (if truthy (brand i) then map_option normalizeBrandCase (brand i) else None);
          mq = (if truthy (modelQuery i) then the (modelQuery i) else q)
      in if wantsAccessories i = Some True \<and> mq \<noteq> q then model_accessory_query q i mq modelBrand
         else
           (let textQ = (if has_params i then stripParams q else q);
                shouldClauses =
                  [phrase ''name.morfologik'' q [(''boost'', JNum 50)],
                   phrase ''name.morfologik'' q [(''slop'', JNum 2), (''boost'', JNum 25)],
                   phrase ''model_code'' q [(''boost'', JNum 30)]]
                  @ (case modelBrand of Some b \<Rightarrow> [boosted_term ''brand'' b 15] | None \<Rightarrow> [])
            in JObj [(''bool'', JObj
                 [(''must'', JArr
                     [JObj [(''multi_match'', JObj
                        [(''query'', JStr textQ),
                         (''fields'', JArr [sa ''name.exact^10'', sa ''model_code^8'',
                                            sa ''name.folded^5'', sa ''name.prefix^3'']),
                         (''type'', sa ''best_fields''), (''fuzziness'', JNum 1),
                         (''prefix_length'', JNum 2)])]]),
                  (''should'', JArr shouldClauses)])]))"

definition brand_query :: "jstring \<Rightarrow> jstring \<Rightarrow> json" where
  "brand_query q b =
     JObj [(''bool'', JObj
        [(''should'', JArr [boosted_term ''brand'' (normalizeBrandCase b) 20,
                            multi_match q NAME_FIELDS []])])]"

definition compound_query :: "jstring \<Rightarrow> intent \<Rightarrow> json" where
  "compound_query q i =
     (let brandNorm = (if truthy (brand i) then map_option normalizeBrandCase (brand i) else None);
          paramFilters = buildParamFilters (case params i of Some ps \<Rightarrow> ps | None \<Rightarrow> []);
          tq = (if truthy (textQuery i) then the (textQuery i) else q);
          mustClauses =
            [JObj [(''term'', JObj [(''category'', ostr (detectedCategory i))])]]
            @ (case compatMounts i of
                 Some ms \<Rightarrow>
                   if compatibilityMode i = Some True
                   then [JObj [(''terms'', JObj [(''compatible_mounts'', JArr (map JStr ms))])]]
                   else []
               | None \<Rightarrow> []);
          shouldClauses =
            [phrase ''name.morfologik'' q [(''slop'', JNum 3), (''boost'', JNum 20)],
             multi_match tq NAME_FIELDS []]
            @ (case brandNorm of
                 Some b \<Rightarrow> if compatibilityMode i = Some True then [] else [boosted_term ''brand'' b 10]
               | None \<Rightarrow> [])
      in JObj [(''bool'', JObj [(''must'', JArr mustClauses), (''should'', JArr shouldClauses),
                               (''filter'', JArr paramFilters)])])"

definition category_query :: "jstring \<Rightarrow> intent \<Rightarrow> json" where
  "category_query q i =
     JObj [(''function_score'', JObj
        [(''query'', JObj [(''bool'', JObj
            [(''must'', JArr [JObj [(''term'', JObj [(''category'', ostr (category i))])]]),
             (''should'', JArr
                [multi_match q (JArr [sa ''name.folded^3'', sa ''name.morfologik^2'',
                                      sa ''name.stempel^1'']) []])])]),
         (''functions'', JArr
            [JObj [(''script_score'', JObj [(''script'', JObj
               [(''source'', JStr name_prefix_source),
                (''params'', JObj [(''q'', JStr (toLowerCase q))])])])],
             JObj [(''script_score'', JObj [(''script'', JObj
               [(''source'', JStr category_path_source)])])]]),
         (''score_mode'', sa ''multiply''),
         (''boost_mode'', sa ''multiply'')])]"

definition fuzzy :: "(string \<times> json) list" where
  "fuzzy = [(''fuzziness'', sa ''AUTO''), (''prefix_length'', JNum 1)]"

text \<open>
  \<^verbatim>\<open>buildIntentQuery\<close>. The \<^verbatim>\<open>BRAND\<close> branch calls a method on \<^verbatim>\<open>intent.brand\<close>
  and throws when the field is missing.
\<close>

definition buildIntentQuery :: "jstring \<Rightarrow> intent \<Rightarrow> error + json" where
  "buildIntentQuery q i =
     (case itype i of
        EAN \<Rightarrow> Inr (JObj [(''term'', JObj [(''ean'', JStr q)])])
      | SKU \<Rightarrow> Inr (sku_query q)
      | MODEL \<Rightarrow> Inr (model_query q i)
      | BRAND \<Rightarrow> (case brand i of None \<Rightarrow> Inl TypeError | Some b \<Rightarrow> Inr (brand_query q b))
      | COMPOUND \<Rightarrow> Inr (compound_query q i)
      | PARAMETRIC \<Rightarrow>
          (let textPart = stripParams q
           in if textPart = [] then Inr match_all
              else Inr (multi_match textPart NAME_FIELDS fuzzy))
      | CATEGORY \<Rightarrow> Inr (category_query q i)
      | PRICE \<Rightarrow>
          (if \<not> truthy (query i) \<or> query i = Some q then Inr match_all
           else Inr (multi_match (the (query i)) NAME_FIELDS []))
      | GENERAL \<Rightarrow>
          (let generalTextQ = (if has_params i then stripParams q else q)
           in Inr (multi_match (if generalTextQ \<noteq> [] then generalTextQ else q) NAME_FIELDS fuzzy)))"

record search_options =
  o_filters :: "filters option"
  o_page :: "int option"
  o_perPage :: "int option"
  o_sort :: "jstring option"

definition no_options :: search_options where
  "no_options = \<lparr> o_filters = None, o_page = None, o_perPage = None, o_sort = None \<rparr>"

record 'q search_body =
  b_from :: int
  b_size :: int
  b_query :: 'q
  b_aggs :: json
  b_source :: json
  b_sort :: "json list option"

definition search_aggs :: json where
  "search_aggs =
     JObj [(''brands'', JObj [(''terms'', JObj [(''field'', sa ''brand''), (''size'', JNum 20)])]),
           (''categories'', JObj [(''terms'', JObj [(''field'', sa ''category''), (''size'', JNum 20)])]),
           (''availability_facet'',
              JObj [(''terms'', JObj [(''field'', sa ''availability''), (''size'', JNum 5)])]),
           (''mounts'',
              JObj [(''terms'', JObj [(''field'', sa ''compatible_mounts''), (''size'', JNum 15)])]),
           (''price_ranges'', JObj [(''range'', JObj
              [(''field'', sa ''price''),
               (''ranges'', JArr
                  [JObj [(''key'', sa ''0-500''), (''to'', JNum 500)],
                   JObj [(''key'', sa ''500-1000''), (''from'', JNum 500), (''to'', JNum 1000)],
                   JObj [(''key'', sa ''1000-3000''), (''from'', JNum 1000), (''to'', JNum 3000)],
                   JObj [(''key'', sa ''3000-5000''), (''from'', JNum 3000), (''to'', JNum 5000)],
                   JObj [(''key'', sa ''5000-10000''), (''from'', JNum 5000), (''to'', JNum 10000)],
                   JObj [(''key'', sa ''10000+''), (''from'', JNum 10000)]])])])]"

definition fallback_source :: json where
  "fallback_source =
     JArr (map sa [''id'', ''name'', ''brand'', ''category'', ''price'', ''sale_price'',
                   ''is_promo'', ''currency'', ''availability'', ''image_url'', ''product_url'',
                   ''has_image'', ''avg_rating'', ''review_count''])"

definition search_source :: json where
  "search_source =
     JArr (map sa [''id'', ''name'', ''brand'', ''category'', ''category_path'', ''price'',
                   ''sale_price'', ''is_promo'', ''currency'', ''availability'', ''image_url'',
                   ''product_url'', ''has_image'', ''avg_rating'', ''review_count'', ''is_new'',
                   ''sales_30d'', ''description'', ''sku'', ''condition'', ''is_bestseller'',
                   ''is_highlighted'', ''ga4.popularity_score'', ''ga4.conversion_score'',
                   ''ga4.trending_score''])"

text \<open>
  \<^verbatim>\<open>buildSearchQuery\<close>, with the defaults of its options: no filters, page 1, 20 per page,
  sort by relevance. An empty \<^verbatim>\<open>intent.params\<close> object is truthy and is used as it is.
\<close>

definition buildSearchQuery :: "jstring \<Rightarrow> intent \<Rightarrow> search_options \<Rightarrow> error + json search_body" where
  "buildSearchQuery q i opts =
     (let fs = (case o_filters opts of Some f \<Rightarrow> f | None \<Rightarrow> no_filters);
          page = (case o_page opts of Some n \<Rightarrow> n | None \<Rightarrow> 1);
          perPage = (case o_perPage opts of Some n \<Rightarrow> n | None \<Rightarrow> 20);
          sortKey = (case o_sort opts of Some x \<Rightarrow> x | None \<Rightarrow> asc ''relevance'');
          filterClauses = buildFilterClauses fs;
          ps = (if itype i = COMPOUND then []
                else case params i of
                       Some p \<Rightarrow> p
                     | None \<Rightarrow> if itype i = PARAMETRIC then extractParams q else []);
          paramFilters = buildParamFilters ps
      in case buildIntentQuery q i of
           Inl e \<Rightarrow> Inl e
         | Inr baseQuery \<Rightarrow>
             Inr \<lparr> b_from = (page - 1) * perPage,
                   b_size = perPage,
                   b_query = JObj [(''bool'', JObj [(''must'', JArr [baseQuery]),
                                                    (''filter'', JArr (filterClauses @ paramFilters))])],
                   b_aggs = search_aggs,
                   b_source = search_source,
                   b_sort = (if sortKey \<noteq> asc ''relevance'' then Some (buildSortClause sortKey) else None) \<rparr>)"

definition buildSpellCheckQuery :: "jstring \<Rightarrow> json" where
  "buildSpellCheckQuery q =
     JObj [(''suggest'', JObj
              [(''text'', JStr q),
               (''spell_check'', JObj [(''phrase'', JObj
                  [(''field'', sa ''name.folded''), (''size'', JNum 1), (''gram_size'', JNum 3),
                   (''direct_generator'', JArr
                      [JObj [(''field'', sa ''name.folded''), (''suggest_mode'', sa ''missing'')]]),
                   (''highlight'', JObj [(''pre_tag'', sa ''<em>''), (''post_tag'', sa ''</em>'')])])])]),
           (''size'', JNum 0)]"

text \<open>A \<open>GENERAL\<close> intent that carries extracted parameters.\<close>

definition focal_intent :: intent where
  "focal_intent =
     (plain_intent GENERAL (asc ''50mm''))
       \<lparr>params := Some [(''params.focal_length_min'', JNum 50), (''params.focal_length_max'', JNum 50)]\<rparr>"


section \<open>Zero-results recovery cascade\<close>

text \<open>
  Every call \<^verbatim>\<open>es.search({ index: INDEX_NAME, body })\<close> goes to the same index, so a request
  is its body: either the body of \<^verbatim>\<open>buildSearchQuery\<close> with its query wrapped by
  \<^verbatim>\<open>wrapWithFunctionScore\<close>, or a body written out in place.

  The index is a collaborator with state of its own: a call takes the state and the request,
  and either fails (\<open>None\<close>, the promise is rejected) or answers. The requests made are
  logged next to the state, in order.
\<close>

datatype request =
    Ranked "json function_score search_body"
  | Raw json

text \<open>
  The part of an answer the cascade reads: \<^verbatim>\<open>hits.total.value\<close>, \<^verbatim>\<open>hits.hits\<close>,
  \<^verbatim>\<open>aggregations\<close> and \<^verbatim>\<open>suggest.spell_check\<close> (per entry its options, each a text
  with a score).
\<close>

record es_result =
  hits_total :: nat
  hits_hits :: "json list"
  r_aggregations :: "json option"
  spell_check :: "(jstring \<times> real) list list option"

type_synonym 's index = "'s \<Rightarrow> request \<Rightarrow> es_result option \<times> 's"

type_synonym 's world = "'s \<times> request list"

definition es_search :: "'s index \<Rightarrow> request \<Rightarrow> 's world \<Rightarrow> es_result option \<times> 's world" where
  "es_search es req w = (case es (fst w) req of (r, s') \<Rightarrow> (r, (s', snd w @ [req])))"

record outcome =
  products :: "json list"
  total :: nat
  aggregations :: "json option"
  didYouMean :: "jstring option"
  fallbackType :: string
  relaxedQuery :: "jstring option"
  fallbackCategory :: "jstring option"

definition make_outcome :: "es_result \<Rightarrow> json option \<Rightarrow> jstring option \<Rightarrow> string \<Rightarrow> outcome" where
  "make_outcome res aggs dym ft =
     \<lparr> products = hits_hits res, total = hits_total res, aggregations = aggs, didYouMean = dym,
       fallbackType = ft, relaxedQuery = None, fallbackCategory = None \<rparr>"

text \<open>\<^verbatim>\<open>trySpellCorrection\<close>: the whole body is inside \<^verbatim>\<open>try\<close>; a failure gives \<^verbatim>\<open>null\<close>.\<close>

definition trySpellCorrection :: "'s index \<Rightarrow> jstring \<Rightarrow> 's world \<Rightarrow> (jstring \<times> real) option \<times> 's world" where
  "trySpellCorrection es q w =
     (case es_search es (Raw (buildSpellCheckQuery q)) w of
        (None, w') \<Rightarrow> (None, w')
      | (Some res, w') \<Rightarrow>
          (case spell_check res of
             Some ((best # _) # _) \<Rightarrow>
               (if snd best > 0.5 \<and> fst best \<noteq> q then (Some best, w') else (None, w'))
           | _ \<Rightarrow> (None, w')))"

text \<open>The body of the \<^verbatim>\<open>GENERAL\<close> pipeline for a text: built, then wrapped without an intent.\<close>

definition general_body :: "jstring \<Rightarrow> search_options \<Rightarrow> error + json function_score search_body" where
  "general_body txt opts =
     (case buildSearchQuery txt (plain_intent GENERAL txt) opts of
        Inl e \<Rightarrow> Inl e
      | Inr body \<Rightarrow>
          Inr \<lparr> b_from = b_from body, b_size = b_size body,
                b_query = wrapWithFunctionScore (b_query body) None,
                b_aggs = b_aggs body, b_source = b_source body, b_sort = b_sort body \<rparr>)"

text \<open>
  One round of the relaxation loop for \<open>drop\<close> dropped words: \<open>None\<close> stands for
  \<^verbatim>\<open>continue\<close>, \<open>Some\<close> for the \<^verbatim>\<open>return\<close>. The body is built outside the
  \<^verbatim>\<open>try\<close>, the call is inside.
\<close>

definition relaxed_text :: "jstring list \<Rightarrow> nat \<Rightarrow> jstring" where
  "relaxed_text ws drop_n = join (asc '' '') (take (length ws - drop_n) ws)"

fun relax_loop ::
  "'s index \<Rightarrow> jstring list \<Rightarrow> search_options \<Rightarrow> nat list \<Rightarrow> 's world
     \<Rightarrow> (error + outcome option) \<times> 's world" where
  "relax_loop es ws opts [] w = (Inr None, w)"
| "relax_loop es ws opts (d # ds) w =
     (let relaxed = relaxed_text ws d
      in if relaxed = [] then relax_loop es ws opts ds w
         else case general_body relaxed opts of
                Inl e \<Rightarrow> (Inl e, w)
              | Inr body \<Rightarrow>
                  (case es_search es (Ranked body) w of
                     (None, w') \<Rightarrow> relax_loop es ws opts ds w'
                   | (Some res, w') \<Rightarrow>
                       if hits_total res > 0 then
                         (Inr (Some ((make_outcome res (r_aggregations res) None ''query_relaxation'')
                                       \<lparr>relaxedQuery := Some relaxed\<rparr>)), w')
                       else relax_loop es ws opts ds w'))"

definition tryQueryRelaxation ::
  "'s index \<Rightarrow> jstring \<Rightarrow> search_options \<Rightarrow> 's world \<Rightarrow> (error + outcome option) \<times> 's world" where
  "tryQueryRelaxation es q opts w =
     (let ws = js_split ws_plus q
      in if length ws \<le> 1 then (Inr None, w)
         else relax_loop es ws opts [1 ..< length ws] w)"

definition fallback_body :: "json list \<Rightarrow> json" where
  "fallback_body must =
     JObj [(''size'', JNum 10),
           (''query'', JObj [(''bool'', JObj
              ((if must = [] then [] else [(''must'', JArr must)])
               @ [(''filter'', JArr [JObj [(''term'', JObj [(''availability'', sa ''in_stock'')])]])]))]),
           (''sort'', JArr [JObj [(''sales_30d'', sa ''desc'')]]),
           (''_source'', fallback_source)]"

definition tryCategoryFallback :: "'s index \<Rightarrow> jstring \<Rightarrow> 's world \<Rightarrow> outcome option \<times> 's world" where
  "tryCategoryFallback es cat w =
     (case es_search es (Raw (fallback_body [JObj [(''term'', JObj [(''category'', JStr cat)])]])) w of
        (None, w') \<Rightarrow> (None, w')
      | (Some res, w') \<Rightarrow>
          if hits_total res > 0 then
            (Some ((make_outcome res None None ''category_fallback'')\<lparr>fallbackCategory := Some cat\<rparr>), w')
          else (None, w'))"

definition error_outcome :: outcome where
  "error_outcome =
     \<lparr> products = [], total = 0, aggregations = None, didYouMean = None, fallbackType = ''error'',
       relaxedQuery = None, fallbackCategory = None \<rparr>"

definition getBestsellers :: "'s index \<Rightarrow> 's world \<Rightarrow> outcome \<times> 's world" where
  "getBestsellers es w =
     (case es_search es (Raw (fallback_body [])) w of
        (None, w') \<Rightarrow> (error_outcome, w')
      | (Some res, w') \<Rightarrow> (make_outcome res None None ''bestsellers'', w'))"

text \<open>Steps 2 to 4 of \<^verbatim>\<open>recoverZeroResults\<close>.\<close>

definition after_spell ::
  "'s index \<Rightarrow> jstring \<Rightarrow> intent \<Rightarrow> search_options \<Rightarrow> 's world \<Rightarrow> (error + outcome) \<times> 's world" where
  "after_spell es originalQuery i opts w =
     (case tryQueryRelaxation es originalQuery opts w of
        (Inl e, w1) \<Rightarrow> (Inl e, w1)
      | (Inr (Some relaxedResult), w1) \<Rightarrow> (Inr relaxedResult, w1)
      | (Inr None, w1) \<Rightarrow>
          (if itype i = CATEGORY \<and> truthy (category i) then
             (case tryCategoryFallback es (the (category i)) w1 of
                (Some catResult, w2) \<Rightarrow> (Inr catResult, w2)
              | (None, w2) \<Rightarrow> (case getBestsellers es w2 of (res, w3) \<Rightarrow> (Inr res, w3)))
           else (case getBestsellers es w1 of (res, w3) \<Rightarrow> (Inr res, w3))))"

text \<open>
  \<^verbatim>\<open>recoverZeroResults\<close>. \<open>Inl\<close> is an exception that leaves the function. The search
  with the corrected text in step 1 is awaited outside any \<^verbatim>\<open>try\<close>.
\<close>

definition recoverZeroResults ::
  "'s index \<Rightarrow> jstring \<Rightarrow> intent \<Rightarrow> search_options \<Rightarrow> 's world \<Rightarrow> (error + outcome) \<times> 's world" where
  "recoverZeroResults es originalQuery i opts w =
     (case trySpellCorrection es originalQuery w of
        (Some spellResult, w1) \<Rightarrow>
          (let correctedQuery = fst spellResult
           in case general_body correctedQuery opts of
                Inl e \<Rightarrow> (Inl e, w1)
              | Inr body \<Rightarrow>
                  (case es_search es (Ranked body) w1 of
                     (None, w2) \<Rightarrow> (Inl IndexError, w2)
                   | (Some res, w2) \<Rightarrow>
                       if hits_total res > 0 then
                         (Inr (make_outcome res (r_aggregations res) (Some correctedQuery)
                                 ''spell_correction''), w2)
                       else after_spell es originalQuery i opts w2))
      | (None, w1) \<Rightarrow> after_spell es originalQuery i opts w1)"

subsection \<open>The cascade as the specification describes it\<close>







text \<open>Indexes used to exercise the cascade.\<close>

definition no_hits :: es_result where
  "no_hits = \<lparr> hits_total = 0, hits_hits = [], r_aggregations = None, spell_check = None \<rparr>"

text \<open>An index that suggests \<open>canon\<close> on its first call and fails from then on.\<close>

definition suggest_then_fail :: "nat index" where
  "suggest_then_fail n req =
     (if n = 0 then (Some (no_hits\<lparr>spell_check := Some [[(asc ''canon'', 0.9)]]\<rparr>), Suc n)
      else (None, Suc n))"


text \<open>An index that always fails.\<close>

definition dead_index :: "unit index" where
  "dead_index u req = (None, u)"




section \<open>Search route: the schema of the query string\<close>

text \<open>The \<^verbatim>\<open>enum\<close> of the \<^verbatim>\<open>sort\<close> property; a value outside it is rejected by validation.\<close>

definition sort_enum :: "jstring list" where
  "sort_enum = [asc ''relevance'', asc ''price_asc'', asc ''price_desc'', asc ''newest'', asc ''popular'']"



section \<open>Evaluation of concrete inputs\<close>

text \<open>The definitions the simplifier unfolds to run the patterns on a given text.\<close>

lemma rep_numeral:
  "rep (numeral n) r = Seq r (rep (pred_numeral n) r)"
  "upto (numeral n) r = Opt (Seq r (upto (pred_numeral n) r))"
  "rep 1 r = Seq r Eps"
  "upto 1 r = Opt (Seq r Eps)"
  by (simp_all add: numeral_eq_Suc)

lemmas rx =
  T_def liti_def lit_def asc_def case_pair_def other_case_def lower_cu_def upper_cu_def
  polish_pairs_def Plus_def Opt_def D_def S_def W_def digit_cls_def space_cls_def word_cls_def
  letter_cls_def in_cls_def at_boundary_def one_of_def one_of_i_def pelna_klatka_def
  mount_alternatives_def ws_plus_def trim_def letter_i_def alnum_i_def rep_range_def bw_def
  ww_def word_end_def olympus_models_def fuji_body_def panasonic_models_def test_def exec_def
  replace_def replaceAll_def js_split_def group_def grp_def toLowerCase_def toUpperCase_def
  rep_numeral

section \<open>Properties of the ranking envelope\<close>

lemma weights_of_append:
  "weights_of f (xs @ ys) = weights_of f xs @ weights_of f ys"
  by (induction f xs rule: weights_of.induct) simp_all

lemma asc_new_neq_used: "asc ''new'' \<noteq> asc ''used''"
  by (simp add: asc_def)

lemma condition_weights_wrap:
  "condition_weights (wrapWithFunctionScore q i) = ([newWeight (pref_of i)], [usedWeight (pref_of i)])"
  using asc_new_neq_used
  by (auto simp: condition_weights_def wrapWithFunctionScore_def Let_def pref_of_def
      weights_of_append)

text \<open>
  Claim C4. For every intent (and for a missing intent) the envelope holds exactly one weight
  on \<open>condition = new\<close> and one on \<open>condition = used\<close>, and they are the pair of the
  specification's table: (0.55, 1.8) under \<open>used\<close>, (1.5, 0.4) under \<open>new\<close>, (1.3, 0.55)
  otherwise. Under \<open>used\<close> the new-weight is strictly below the used-weight, under \<open>new\<close>
  the used-weight is strictly below the new-weight.
\<close>

theorem C4_condition_weights:
  "condition_weights (wrapWithFunctionScore q i)
     = ([fst (spec_condition_weights (pref_of i))], [snd (spec_condition_weights (pref_of i))])
   \<and> fst (spec_condition_weights (Some Used)) < snd (spec_condition_weights (Some Used))
   \<and> snd (spec_condition_weights (Some New)) < fst (spec_condition_weights (Some New))
   \<and> condition_weights (wrapWithFunctionScore q (Some (x\<lparr>conditionPref := Some Used\<rparr>)))
        = ([0.55], [1.8])
   \<and> condition_weights (wrapWithFunctionScore q (Some (x\<lparr>conditionPref := Some New\<rparr>)))
        = ([1.5], [0.4])
   \<and> condition_weights (wrapWithFunctionScore q (Some (x\<lparr>conditionPref := None\<rparr>)))
        = ([1.3], [0.55])
   \<and> condition_weights (wrapWithFunctionScore q None) = ([1.3], [0.55])"
  unfolding condition_weights_wrap
  by (cases "pref_of i"; cases "the (pref_of i)")
     (simp_all add: spec_condition_weights_def newWeight_def usedWeight_def pref_of_def)

subsection \<open>Monotonicity in the 30-day sales\<close>

lemma omul_comm: "omul a b = omul b a"
  by (cases a; cases b) simp_all



lemma omul_one [simp]: "omul (Some 1) a = a" "omul a (Some 1) = a"
  by (cases a; simp)+













section \<open>Properties of the recovery cascade\<close>

lemma general_body_ok: "\<exists>b. general_body txt opts = Inr b"
  by (simp add: general_body_def buildSearchQuery_def buildIntentQuery_def plain_intent_def Let_def)



















text \<open>
  Claim C1 fails on the code: the search with the corrected text in step 1 is not inside a
  \<^verbatim>\<open>try\<close>. When the index suggests a correction and then fails, the failure leaves
  \<^verbatim>\<open>recoverZeroResults\<close> as an exception.
\<close>

theorem C1_spell_rerun_failure_propagates:
  "fst (recoverZeroResults suggest_then_fail (asc ''canno'') (plain_intent GENERAL (asc ''canno''))
          no_options (0, [])) = Inl IndexError"
proof -
  obtain b where b: "general_body (asc ''canon'') no_options = Inr b"
    using general_body_ok by blast
  have ne: "asc ''canon'' \<noteq> asc ''canno''"
    by (simp add: asc_def)
  show ?thesis
    using b ne
    by (simp add: recoverZeroResults_def trySpellCorrection_def es_search_def
        suggest_then_fail_def no_hits_def Let_def)
qed

lemma getBestsellers_never_throws:
  "\<exists>r w'. getBestsellers es w = (r, w')
      \<and> (fst (es (fst w) (Raw (fallback_body []))) = None \<longrightarrow> r = error_outcome)"
  by (auto simp: getBestsellers_def es_search_def split: prod.splits option.splits)

section \<open>Properties of the parameter extractor\<close>

lemma zoom_parts:
  "trim (asc ''70-200mm f/2.8 24MP'') = asc ''70-200mm f/2.8 24MP''"
  "\<not> test PATTERNS_EAN (asc ''70-200mm f/2.8 24MP'')"
  "\<not> test PATTERNS_SKU (asc ''70-200mm f/2.8 24MP'')"
  "exec BRAND_PATTERN (asc ''70-200mm f/2.8 24MP'') = None"
  "inferBrandFromModel (asc ''70-200mm f/2.8 24MP'') = None"
  "test PARAMETRIC_APERTURE (asc ''70-200mm f/2.8 24MP'')"
  by (simp_all add: PATTERNS_EAN_def PATTERNS_SKU_def BRAND_PATTERN_def KNOWN_BRANDS_def
      inferBrandFromModel_def MODEL_TO_BRAND_def USED_PATTERN_def NEW_PATTERN_def
      PARAMETRIC_APERTURE_def Let_def rx)

lemma zoom_parametric: "itype (classifyIntent (asc ''70-200mm f/2.8 24MP'')) = PARAMETRIC"
  by (simp add: classifyIntent_def Let_def zoom_parts hasParam_def plain_intent_def)

text \<open>
  Claim C7 fails on the code: \<^verbatim>\<open>stripParams\<close> has no replacement for the megapixels
  pattern of \<^verbatim>\<open>EXTRACTORS\<close>. From \<open>70-200mm f/2.8 24MP\<close> the extractor reads
  24 megapixels, and the stripped text still is \<open>24MP\<close>.
\<close>

theorem C7_megapixels_survive_strip:
  "stripParams (asc ''70-200mm f/2.8 24MP'') = asc ''24MP''
   \<and> map_of (extractParams (asc ''70-200mm f/2.8 24MP'')) ''params.megapixels'' = Some (JNum 24)
   \<and> itype (classifyIntent (asc ''70-200mm f/2.8 24MP'')) = PARAMETRIC"
proof -
  have s: "stripParams (asc ''70-200mm f/2.8 24MP'') = asc ''24MP''"
    by (simp add: stripParams_def Let_def rx)
  have e: "map_of (extractParams (asc ''70-200mm f/2.8 24MP'')) ''params.megapixels'' = Some (JNum 24)"
    by (simp add: extractParams_def EXTRACTORS_def apply_extractor_def assign_def parseFloat_def
        parseInt_def Let_def rx)
  show ?thesis using s e zoom_parametric by simp
qed

text \<open>The query the builder makes of that text matches on the megapixels token.\<close>

lemma zoom_query:
  "buildIntentQuery (asc ''70-200mm f/2.8 24MP'') (classifyIntent (asc ''70-200mm f/2.8 24MP''))
     = Inr (multi_match (asc ''24MP'') NAME_FIELDS fuzzy)"
proof -
  have s: "stripParams (asc ''70-200mm f/2.8 24MP'') = asc ''24MP''"
    by (simp add: stripParams_def Let_def rx)
  have n: "asc ''24MP'' \<noteq> []"
    by (simp add: asc_def)
  show ?thesis
    using n by (simp add: buildIntentQuery_def zoom_parametric s)
qed

section \<open>Properties of the sort contract\<close>

lemma sort_values_distinct:
  "asc ''trending'' \<notin> set sort_enum"
  by (simp add: sort_enum_def asc_def)


lemma sort_clauses:
  "buildSortClause (asc ''price_asc'') = [JObj [(''price'', sa ''asc'')], sa ''_score'']"
  "buildSortClause (asc ''price_desc'') = [JObj [(''price'', sa ''desc'')], sa ''_score'']"
  "buildSortClause (asc ''newest'') = [JObj [(''created_at'', sa ''desc'')], sa ''_score'']"
  "buildSortClause (asc ''popular'') = [script_sort popular_sort_source, sa ''_score'']"
  "buildSortClause (asc ''relevance'') = [sa ''_score'']"
  by (simp_all add: buildSortClause_def asc_def)

section \<open>Intent classifier: a model query with an accessory word\<close>

lemma eos_trim: "trim (asc ''eos r6 akumulator'') = asc ''eos r6 akumulator''"
  by (simp add: rx)

lemma eos_accessory: "detectAccessoryPreference (asc ''eos r6 akumulator'')"
  by (simp add: detectAccessoryPreference_def ACCESSORY_PATTERN_def rx)

lemma eos_condition: "detectConditionPreference (asc ''eos r6 akumulator'') = None"
  by (simp add: detectConditionPreference_def USED_PATTERN_def NEW_PATTERN_def rx)

lemma eos_category: "detectAccessoryCategory (asc ''eos r6 akumulator'') = Some (asc ''Akumulatory'')"
  by (simp add: detectAccessoryCategory_def word_category_def ACCESSORY_TO_CATEGORY_def rx)

lemma eos_not_ean: "\<not> test PATTERNS_EAN (asc ''eos r6 akumulator'')"
  by (simp add: PATTERNS_EAN_def rx)

lemma eos_not_sku: "\<not> test PATTERNS_SKU (asc ''eos r6 akumulator'')"
  by (simp add: PATTERNS_SKU_def rx)

lemma eos_no_brand: "exec BRAND_PATTERN (asc ''eos r6 akumulator'') = None"
  by (simp add: BRAND_PATTERN_def KNOWN_BRANDS_def rx)

lemma eos_inferred: "inferBrandFromModel (asc ''eos r6 akumulator'') = Some (asc ''canon'', True)"
  by (simp add: inferBrandFromModel_def MODEL_TO_BRAND_def detectBodyQuery_def
      BODY_MODEL_PATTERNS_def USED_PATTERN_def NEW_PATTERN_def Let_def rx)

lemma eos_stripped: "stripModifierWords (asc ''eos r6 akumulator'') = asc ''eos r6''"
  by (simp add: stripModifierWords_def ACCESSORY_PATTERN_def USED_PATTERN_def NEW_PATTERN_def rx)

text \<open>
  Claim C6. \<open>eos r6 akumulator\<close> is a \<open>MODEL\<close> intent; no brand word occurs in it and
  the brand \<open>canon\<close> is inferred from the model, with a body-pattern match that the
  accessory preference overrides; the accessory category is \<open>Akumulatory\<close> and the model
  query is \<open>eos r6\<close>.
\<close>

theorem C6_eos_r6_akumulator:
  "classifyIntent (asc ''eos r6 akumulator'')
     = (plain_intent MODEL (asc ''eos r6 akumulator''))
         \<lparr> modelQuery := Some (asc ''eos r6''), brand := Some (asc ''canon''),
           isBodyQuery := Some False, accessoryCategory := Some (asc ''Akumulatory''),
           conditionPref := None, wantsAccessories := Some True \<rparr>
   \<and> exec BRAND_PATTERN (asc ''eos r6 akumulator'') = None
   \<and> inferBrandFromModel (asc ''eos r6 akumulator'') = Some (asc ''canon'', True)"
  by (simp add: classifyIntent_def Let_def eos_trim eos_accessory eos_condition eos_category
      eos_not_ean eos_not_sku eos_no_brand eos_inferred eos_stripped plain_intent_def)

section \<open>Properties of the query builder\<close>

lemma general_branch:
  "itype i = GENERAL \<Longrightarrow>
   buildIntentQuery q i
     = Inr (multi_match (if has_params i \<and> stripParams q \<noteq> [] then stripParams q else q)
              NAME_FIELDS fuzzy)"
  by (simp add: buildIntentQuery_def Let_def)

lemma multi_match_not_all: "multi_match t f x \<noteq> match_all"
  by (simp add: multi_match_def match_all_def)

lemma other_branches_not_all:
  "JObj [(''term'', x)] \<noteq> match_all"
  "sku_query q \<noteq> match_all"
  "model_query q i \<noteq> match_all"
  "brand_query q b \<noteq> match_all"
  "compound_query q i \<noteq> match_all"
  "category_query q i \<noteq> match_all"
  by (simp_all add: match_all_def sku_query_def model_query_def model_accessory_query_def
      brand_query_def compound_query_def category_query_def Let_def)

lemma match_all_iff:
  "buildIntentQuery q i = Inr match_all
     \<longleftrightarrow> (itype i = PARAMETRIC \<and> stripParams q = [])
         \<or> (itype i = PRICE \<and> (\<not> truthy (query i) \<or> query i = Some q))"
  by (cases "itype i")
     (simp_all add: buildIntentQuery_def Let_def multi_match_not_all other_branches_not_all
        split: option.splits)

text \<open>
  Claim C10, as amended. A \<open>GENERAL\<close> intent with parameters whose stripped text is empty
  is matched on the original text, with the fuzzy multi-field match; the \<open>GENERAL\<close>
  branch never returns \<open>match_all\<close>, and the text it matches is empty only when the
  original text is. \<open>match_all\<close> is returned by the \<open>PARAMETRIC\<close> branch on an empty
  stripped text and by the \<open>PRICE\<close> branch when the query of the intent is missing, empty
  or the original text, and by no other branch.
\<close>

theorem C10_general_fallback:
  "(itype i = GENERAL \<and> has_params i \<and> stripParams q = [] \<longrightarrow>
      buildIntentQuery q i = Inr (multi_match q NAME_FIELDS fuzzy))
   \<and> (itype i = GENERAL \<longrightarrow>
        (\<exists>t. buildIntentQuery q i = Inr (multi_match t NAME_FIELDS fuzzy) \<and> (q \<noteq> [] \<longrightarrow> t \<noteq> []))
        \<and> buildIntentQuery q i \<noteq> Inr match_all)
   \<and> (buildIntentQuery q i = Inr match_all
        \<longleftrightarrow> (itype i = PARAMETRIC \<and> stripParams q = [])
            \<or> (itype i = PRICE \<and> (\<not> truthy (query i) \<or> query i = Some q)))"
  using match_all_iff [of q i]
  by (auto simp: general_branch multi_match_not_all)

lemma strip_50mm: "stripParams (asc ''50mm'') = []"
  by (simp add: stripParams_def Let_def rx)

theorem C10_general_fallback_witness:
  "itype focal_intent = GENERAL \<and> has_params focal_intent \<and> stripParams (asc ''50mm'') = []
   \<and> buildIntentQuery (asc ''50mm'') focal_intent = Inr (multi_match (asc ''50mm'') NAME_FIELDS fuzzy)
   \<and> buildIntentQuery (asc ''50mm'') focal_intent \<noteq> Inr match_all"
proof -
  have h: "itype focal_intent = GENERAL" "has_params focal_intent"
    by (simp_all add: focal_intent_def plain_intent_def has_params_def)
  show ?thesis
    using h strip_50mm C10_general_fallback [of focal_intent "asc ''50mm''"] by blast
qed

lemma tani_parts:
  "trim (asc ''tani'') = asc ''tani''"
  "\<not> detectAccessoryPreference (asc ''tani'')"
  "detectConditionPreference (asc ''tani'') = None"
  "\<not> test PATTERNS_EAN (asc ''tani'')"
  "\<not> test PATTERNS_SKU (asc ''tani'')"
  "exec BRAND_PATTERN (asc ''tani'') = None"
  "inferBrandFromModel (asc ''tani'') = None"
  "\<not> hasParam (asc ''tani'')"
  "map_of CATEGORY_NAMES (toLowerCase (asc ''tani'')) = None"
  "exec PATTERNS_PRICE (asc ''tani'')
     = Some \<lparr> m_index = 0, m_text = asc ''tani'', m_groups = [], m_after = [] \<rparr>"
  "trim (replace PATTERNS_PRICE [] (asc ''tani'')) = []"
  by (simp_all add: detectAccessoryPreference_def ACCESSORY_PATTERN_def
      detectConditionPreference_def USED_PATTERN_def NEW_PATTERN_def PATTERNS_EAN_def
      PATTERNS_SKU_def BRAND_PATTERN_def KNOWN_BRANDS_def inferBrandFromModel_def
      MODEL_TO_BRAND_def hasParam_def PARAMETRIC_APERTURE_def PARAMETRIC_FOCAL_def
      PARAMETRIC_RES_def PARAMETRIC_FPS_def PARAMETRIC_SENSOR_def PARAMETRIC_MOUNT_def
      CATEGORY_NAMES_def PATTERNS_PRICE_def Let_def rx)

lemma tani_intent:
  "classifyIntent (asc ''tani'')
     = (plain_intent PRICE (asc ''tani''))\<lparr>conditionPref := None, wantsAccessories := Some False\<rparr>"
  by (simp add: classifyIntent_def Let_def tani_parts price_of_def group_def plain_intent_def)

text \<open>
  The claim as stated fails for the \<open>PRICE\<close> branch: the text \<open>tani\<close> is classified
  as \<open>PRICE\<close>, nothing is left of it once the price phrase is removed, and the builder
  returns \<open>match_all\<close>.
\<close>

theorem C10_counterexample:
  "itype (classifyIntent (asc ''tani'')) = PRICE
   \<and> trim (replace PATTERNS_PRICE [] (asc ''tani'')) = []
   \<and> buildIntentQuery (asc ''tani'') (classifyIntent (asc ''tani'')) = Inr match_all"
  by (simp add: tani_intent tani_parts plain_intent_def buildIntentQuery_def)

section \<open>Intent classifier: the manufacturer-code rule\<close>

lemma m_Seq_iff: "t \<in> set (m (Seq a b) s) \<longleftrightarrow> (\<exists>u \<in> set (m a s). t \<in> set (m b u))"
  by auto

lemma star_self: "s \<in> set (star n f s)"
  by (cases n) simp_all

lemma m_Cls_step: "in_cls c rs \<Longrightarrow> m (Cls rs) (l, c # r, cs) = [(c # l, r, cs)]"
  by simp

lemma star_cls_consume:
  "list_all (\<lambda>c. in_cls c rs) cs \<Longrightarrow> length (cs @ r) \<le> n \<Longrightarrow>
   (rev cs @ l, r, caps) \<in> set (star n (m (Cls rs)) (l, cs @ r, caps))"
proof (induction cs arbitrary: l n)
  case Nil
  then show ?case by (simp add: star_self)
next
  case (Cons c cs)
  then obtain k where k: "n = Suc k" by (cases n) auto
  have step: "m (Cls rs) (l, c # cs @ r, caps) = [(c # l, cs @ r, caps)]"
    using Cons.prems by simp
  have "(rev cs @ c # l, r, caps) \<in> set (star k (m (Cls rs)) (c # l, cs @ r, caps))"
    using Cons.IH [of k "c # l"] Cons.prems k by (simp del: m.simps)
  then show ?case
    using k by (simp del: m.simps add: step)
qed

lemma m_Star_cls:
  "list_all (\<lambda>c. in_cls c rs) cs \<Longrightarrow>
   (rev cs @ l, r, caps) \<in> set (m (Star (Cls rs)) (l, cs @ r, caps))"
  using star_cls_consume [of rs cs r "length (cs @ r)" l caps]
  by (simp del: m.simps add: m.simps(5))

lemma m_Star_skip: "s \<in> set (m (Star a) s)"
  by (simp add: star_self)

lemma letters_2_4:
  assumes "list_all (\<lambda>c. in_cls c letter_cls) ls" "2 \<le> length ls" "length ls \<le> 4"
  shows "(rev ls @ l, r, caps) \<in> set (m (rep_range 2 4 letter_i) (l, ls @ r, caps))"
proof -
  consider a b where "ls = [a, b]" | a b c where "ls = [a, b, c]" | a b c d where "ls = [a, b, c, d]"
  proof -
    obtain a b t where t: "ls = a # b # t"
      using assms(2) by (cases ls; cases "tl ls") auto
    show ?thesis
    proof (cases t)
      case Nil
      then show ?thesis using t that(1) by simp
    next
      case (Cons c u)
      show ?thesis
      proof (cases u)
        case Nil
        then show ?thesis using t Cons that(2) by simp
      next
        case (Cons d v)
        then have "v = []" using assms(3) t \<open>t = c # u\<close> by simp
        then show ?thesis using t \<open>t = c # u\<close> Cons that(3) by simp
      qed
    qed
  qed
  then show ?thesis
    using assms(1)
    by cases (simp_all add: rep_range_def letter_i_def Opt_def rep_numeral)
qed

lemma sku_prefix_matches:
  assumes "list_all (\<lambda>c. in_cls c letter_cls) ls" "2 \<le> length ls" "length ls \<le> 4"
    and "sep = 45 \<or> sep = 95"
    and "list_all (\<lambda>c. in_cls c letter_cls) pre" "in_cls d digit_cls"
  shows "m PATTERNS_SKU ([], ls @ sep # pre @ d # post, []) \<noteq> []"
proof -
  let ?s0 = "([], ls @ sep # pre @ d # post, []) :: mstate"
  let ?s1 = "(rev ls, sep # pre @ d # post, []) :: mstate"
  let ?s2 = "(sep # rev ls, pre @ d # post, []) :: mstate"
  let ?s3 = "(rev pre @ sep # rev ls, d # post, []) :: mstate"
  let ?s4 = "(d # rev pre @ sep # rev ls, post, []) :: mstate"
  have 1: "?s1 \<in> set (m (rep_range 2 4 letter_i) ?s0)"
    using letters_2_4 [OF assms(1-3), of "[]" "sep # pre @ d # post" "[]"] by simp
  have 2: "?s2 \<in> set (m (one_of (asc ''-_'')) ?s1)"
    using assms(4) by (auto simp: one_of_def asc_def in_cls_def)
  have 3: "?s3 \<in> set (m (Star letter_i) ?s2)"
    using m_Star_cls [OF assms(5), of "sep # rev ls" "d # post" "[]"]
    by (simp add: letter_i_def)
  have 4: "?s4 \<in> set (m D ?s3)"
    using assms(6) by (simp add: D_def)
  have 5: "?s4 \<in> set (m (Star alnum_i) ?s4)"
    by (rule m_Star_skip)
  have "?s4 \<in> set (m PATTERNS_SKU ?s0)"
    unfolding PATTERNS_SKU_def seqs.simps m_Seq_iff
    using 1 2 3 4 5 by (auto simp del: m.simps simp add: m.simps(6))
  then show ?thesis by auto
qed


lemma ean_not_at_start: "l \<noteq> [] \<Longrightarrow> m PATTERNS_EAN (l, r, caps) = []"
  by (simp add: PATTERNS_EAN_def)

lemma ean_search_inside: "l \<noteq> [] \<Longrightarrow> search PATTERNS_EAN l r = None"
  by (induction r arbitrary: l) (simp_all add: ean_not_at_start del: m.simps)

lemma ean_needs_digit:
  "\<not> in_cls c digit_cls \<Longrightarrow> m PATTERNS_EAN ([], c # r, caps) = []"
  by (simp add: PATTERNS_EAN_def D_def rep_numeral)

lemma ean_rejects_letter_start:
  "\<not> in_cls c digit_cls \<Longrightarrow> \<not> test PATTERNS_EAN (c # r)"
  by (simp add: test_def ean_needs_digit ean_search_inside del: m.simps)

lemma letter_not_digit: "in_cls c letter_cls \<Longrightarrow> \<not> in_cls c digit_cls"
  by (auto simp: in_cls_def letter_cls_def digit_cls_def)

lemma letter_not_space: "in_cls c letter_cls \<Longrightarrow> \<not> in_cls c space_cls"
  by (auto simp: in_cls_def letter_cls_def space_cls_def)

lemma alnum_not_space: "in_cls c (letter_cls @ digit_cls) \<Longrightarrow> \<not> in_cls c space_cls"
  by (auto simp: in_cls_def letter_cls_def digit_cls_def space_cls_def)

lemma trim_id:
  assumes "s \<noteq> []" "\<not> in_cls (hd s) space_cls" "\<not> in_cls (last s) space_cls"
  shows "trim s = s"
proof -
  have 1: "dropWhile (\<lambda>c. in_cls c space_cls) s = s"
    using assms(1,2) by (cases s) simp_all
  have 2: "dropWhile (\<lambda>c. in_cls c space_cls) (rev s) = rev s"
    using assms(1,3) by (cases "rev s") (simp_all add: last_rev [symmetric] hd_rev)
  show ?thesis by (simp add: trim_def 1 2)
qed

lemma sku_shape_parts:
  assumes "sku_shape s"
  obtains ls sep pre d post where
    "s = ls @ sep # pre @ d # post"
    "list_all (\<lambda>c. in_cls c letter_cls) ls" "2 \<le> length ls" "length ls \<le> 4"
    "sep = 45 \<or> sep = 95"
    "list_all (\<lambda>c. in_cls c letter_cls) pre" "in_cls d digit_cls"
    "list_all (\<lambda>c. in_cls c (letter_cls @ digit_cls)) post"
proof -
  let ?ls = "takeWhile (\<lambda>c. in_cls c letter_cls) s"
  from assms obtain sep suf where
    d: "drop (length ?ls) s = sep # suf" and
    len: "2 \<le> length ?ls" "length ?ls \<le> 4" and
    sep: "sep = 45 \<or> sep = 95" and
    suf: "list_all (\<lambda>c. in_cls c (letter_cls @ digit_cls)) suf"
         "list_ex (\<lambda>c. in_cls c digit_cls) suf"
    by (auto simp: sku_shape_def Let_def split: list.splits)
  have s: "s = ?ls @ sep # suf"
    using d append_take_drop_id [of "length ?ls" s]
    by (metis takeWhile_eq_take)
  let ?pre = "takeWhile (\<lambda>c. \<not> in_cls c digit_cls) suf"
  have "dropWhile (\<lambda>c. \<not> in_cls c digit_cls) suf \<noteq> []"
    using suf(2) by (auto simp: list_ex_iff dropWhile_eq_Nil_conv)
  then obtain dg post where dp: "dropWhile (\<lambda>c. \<not> in_cls c digit_cls) suf = dg # post"
    by (cases "dropWhile (\<lambda>c. \<not> in_cls c digit_cls) suf") auto
  have dg: "in_cls dg digit_cls"
    using hd_dropWhile [of "\<lambda>c. \<not> in_cls c digit_cls" suf] dp by simp
  have suf_eq: "suf = ?pre @ dg # post"
    using takeWhile_dropWhile_id [of "\<lambda>c. \<not> in_cls c digit_cls" suf] dp by simp
  have pre: "list_all (\<lambda>c. in_cls c letter_cls) ?pre"
  proof -
    have "\<forall>c \<in> set ?pre. in_cls c (letter_cls @ digit_cls) \<and> \<not> in_cls c digit_cls"
      using suf(1) by (auto simp: list_all_iff dest: set_takeWhileD)
    then show ?thesis
      by (auto simp: list_all_iff in_cls_def)
  qed
  have "list_all (\<lambda>c. in_cls c (letter_cls @ digit_cls)) (?pre @ dg # post)"
    using suf(1) suf_eq by simp
  then have post: "list_all (\<lambda>c. in_cls c (letter_cls @ digit_cls)) post"
    by simp
  have lsl: "list_all (\<lambda>c. in_cls c letter_cls) ?ls"
    by (auto simp: list_all_iff dest: set_takeWhileD)
  show ?thesis
    using that [of ?ls sep ?pre dg post] s suf_eq lsl len sep pre dg post by simp
qed

text \<open>
  Claim C5. Every text of the manufacturer-code shape is classified as \<open>SKU\<close>: the intent
  carries the text, the condition preference and the accessory preference and nothing else.
  The statement holds whatever brand, category, parameter or price pattern also matches in the
  text, since only the \<open>EAN\<close> rule is tried before and it needs a leading digit.
\<close>

theorem C5_sku_shape_is_sku:
  assumes "sku_shape s"
  shows "classifyIntent s
           = (plain_intent SKU s)\<lparr>conditionPref := detectConditionPreference s,
                                   wantsAccessories := Some (detectAccessoryPreference s)\<rparr>"
proof -
  obtain ls sep pre d post where p:
    "s = ls @ sep # pre @ d # post"
    "list_all (\<lambda>c. in_cls c letter_cls) ls" "2 \<le> length ls" "length ls \<le> 4"
    "sep = 45 \<or> sep = 95"
    "list_all (\<lambda>c. in_cls c letter_cls) pre" "in_cls d digit_cls"
    "list_all (\<lambda>c. in_cls c (letter_cls @ digit_cls)) post"
    using sku_shape_parts [OF assms] by blast
  obtain a ls' where ls: "ls = a # ls'" "in_cls a letter_cls"
    using p(2,3) by (cases ls) auto
  have last_ok: "\<not> in_cls (last s) space_cls"
  proof (cases post rule: rev_cases)
    case Nil
    then show ?thesis using p(1,7) by (auto simp: in_cls_def digit_cls_def space_cls_def)
  next
    case (snoc ys y)
    then have "in_cls y (letter_cls @ digit_cls)" using p(8) by simp
    then show ?thesis using p(1) snoc by (simp add: alnum_not_space)
  qed
  have tr: "trim s = s"
    using p(1) ls last_ok by (intro trim_id) (simp_all add: letter_not_space)
  have no_ean: "\<not> test PATTERNS_EAN s"
    using p(1) ls ean_rejects_letter_start [of a] by (simp add: letter_not_digit)
  have "m PATTERNS_SKU ([], s, []) \<noteq> []"
    using sku_prefix_matches [OF p(2-7)] p(1) by simp
  then have sku: "test PATTERNS_SKU s"
    using p(1) ls by (cases "m PATTERNS_SKU ([], s, [])") (simp_all add: test_def del: m.simps)
  show ?thesis
    by (simp add: classifyIntent_def Let_def tr no_ean sku)
qed

lemma dji_shape: "sku_shape (asc ''DJI-mini3'')"
  by (simp add: sku_shape_def Let_def asc_def in_cls_def letter_cls_def digit_cls_def)

lemma dji_brand:
  "exec BRAND_PATTERN (asc ''DJI-mini3'')
     = Some \<lparr> m_index = 0, m_text = asc ''DJI'', m_groups = [(1, asc ''DJI'')],
              m_after = asc ''-mini3'' \<rparr>"
  by (simp add: BRAND_PATTERN_def KNOWN_BRANDS_def rx)

theorem C5_sku_shape_is_sku_witness:
  "sku_shape (asc ''DJI-mini3'')
   \<and> exec BRAND_PATTERN (asc ''DJI-mini3'') \<noteq> None
   \<and> itype (classifyIntent (asc ''DJI-mini3'')) = SKU
   \<and> brand (classifyIntent (asc ''DJI-mini3'')) = None"
  using C5_sku_shape_is_sku [OF dji_shape] dji_shape dji_brand
  by (simp add: plain_intent_def)

section \<open>Intent classifier: totality and the default rule\<close>

lemma attached:
  "wantsAccessories (classifyIntent s) = Some (detectAccessoryPreference (trim s))"
  "conditionPref (classifyIntent s) = detectConditionPreference (trim s)"
  "query (classifyIntent s) \<noteq> None"
  "itype (classifyIntent s) \<noteq> COMPOUND"
  by (simp_all add: classifyIntent_def Let_def plain_intent_def
      split: option.splits prod.splits)

lemma general_iff: "itype (classifyIntent s) = GENERAL \<longleftrightarrow> unmatched (trim s)"
  by (auto simp: classifyIntent_def Let_def plain_intent_def unmatched_def
      split: option.splits prod.splits)

lemma unmatched_general: "unmatched (trim s) \<Longrightarrow> classifyIntent s = general_intent (trim s)"
  by (simp add: classifyIntent_def Let_def unmatched_def general_intent_def)

lemma trim_spaces: "list_all (\<lambda>c. in_cls c space_cls) s \<Longrightarrow> trim s = []"
proof -
  assume "list_all (\<lambda>c. in_cls c space_cls) s"
  then have d: "dropWhile (\<lambda>c. in_cls c space_cls) s = []"
    by (simp add: list_all_iff)
  show ?thesis unfolding trim_def d by simp
qed

lemma empty_parts:
  "\<not> detectAccessoryPreference []"
  "detectConditionPreference [] = None"
  "\<not> test PATTERNS_EAN []"
  "\<not> test PATTERNS_SKU []"
  "exec BRAND_PATTERN [] = None"
  "inferBrandFromModel [] = None"
  "\<not> hasParam []"
  "map_of CATEGORY_NAMES (toLowerCase []) = None"
  "exec PATTERNS_PRICE [] = None"
  by (simp_all add: detectAccessoryPreference_def ACCESSORY_PATTERN_def
      detectConditionPreference_def USED_PATTERN_def NEW_PATTERN_def PATTERNS_EAN_def
      PATTERNS_SKU_def BRAND_PATTERN_def KNOWN_BRANDS_def inferBrandFromModel_def
      MODEL_TO_BRAND_def hasParam_def PARAMETRIC_APERTURE_def PARAMETRIC_FOCAL_def
      PARAMETRIC_RES_def PARAMETRIC_FPS_def PARAMETRIC_SENSOR_def PARAMETRIC_MOUNT_def
      CATEGORY_NAMES_def PATTERNS_PRICE_def Let_def rx)

lemma unmatched_empty: "unmatched []"
  by (simp add: unmatched_def empty_parts)

text \<open>
  Claim C8. \<open>classifyIntent\<close> is a function of the text alone (its patterns carry no
  \<^verbatim>\<open>g\<close> flag, so matching keeps no state) and none of its operations can throw on a
  string, so it has no error result. For every text the intent carries the accessory
  preference and the condition preference and a query, its type is one of the eight the rules
  produce, and the type is \<open>GENERAL\<close> exactly when no rule applies to the trimmed text; in
  particular an empty or blank text gives the \<open>GENERAL\<close> intent with the empty query.
\<close>

theorem C8_classification_total:
  "wantsAccessories (classifyIntent s) = Some (detectAccessoryPreference (trim s))
   \<and> conditionPref (classifyIntent s) = detectConditionPreference (trim s)
   \<and> query (classifyIntent s) \<noteq> None
   \<and> itype (classifyIntent s) \<noteq> COMPOUND
   \<and> (itype (classifyIntent s) = GENERAL \<longleftrightarrow> unmatched (trim s))
   \<and> (unmatched (trim s) \<longrightarrow> classifyIntent s = general_intent (trim s))
   \<and> (list_all (\<lambda>c. in_cls c space_cls) s \<longrightarrow>
        classifyIntent s
          = (plain_intent GENERAL [])\<lparr>conditionPref := None, wantsAccessories := Some False\<rparr>)"
  using attached [of s] general_iff [of s] unmatched_general [of s] trim_spaces [of s]
    unmatched_empty
  by (auto simp: general_intent_def empty_parts)

lemma blank: "list_all (\<lambda>c. in_cls c space_cls) (asc ''   '')"
  by (simp add: asc_def in_cls_def space_cls_def)

theorem C8_classification_total_witness:
  "list_all (\<lambda>c. in_cls c space_cls) (asc ''   '')
   \<and> unmatched (trim (asc ''   ''))
   \<and> classifyIntent (asc ''   '')
       = (plain_intent GENERAL [])\<lparr>conditionPref := None, wantsAccessories := Some False\<rparr>
   \<and> itype (classifyIntent (asc ''   '')) = GENERAL"
proof -
  have t: "trim (asc ''   '') = []"
    using trim_spaces [OF blank] .
  have u: "unmatched (trim (asc ''   ''))"
    by (simp add: t unmatched_empty)
  have c: "classifyIntent (asc ''   '')
       = (plain_intent GENERAL [])\<lparr>conditionPref := None, wantsAccessories := Some False\<rparr>"
    using C8_classification_total [of "asc ''   ''"] blank by blast
  have g: "itype (classifyIntent (asc ''   '')) = GENERAL"
    using C8_classification_total [of "asc ''   ''"] u by blast
  show ?thesis
    using blank u c g by blast
qed

end
